theory Spec2Isabelle
  imports Complex_Main "HOL-Library.Word"
begin

section \<open>Per-node bucket statistics collector (pkg/collectors/pernode_bucketstats.go)\<close>

text \<open>
  The collector polls the cluster's REST API and republishes the latest sample of every
  tracked statistic as a labelled gauge. The embedding follows the Go file function by
  function. What the file takes from elsewhere is made explicit:
  \<^item> \<open>strconv.ParseFloat(f, 64)\<close> is a parameter \<open>ParseFloat :: string \<Rightarrow> 'f option\<close>,
    \<open>Some i\<close> when the returned error is nil; the float type \<open>'f\<close> stays abstract;
  \<^item> \<open>fmt.Sprint\<close> of a dynamic value other than nil or a string is a parameter too;
  \<^item> the methods of \<open>util.Client\<close> are HTTP requests: each is a function of the outside
    world \<open>'w\<close> that returns the Go pair (value, error) and the world after the call;
  \<^item> a \<open>prometheus.GaugeVec\<close> is its table of cells, one per tuple of label values;
  \<^item> logging, gauge writes and the goroutine started by the collector are recorded in
    the program state, in the order in which the code performs them.
\<close>

subsection \<open>Go library: strings.Split and fmt.Sprint\<close>

text \<open>
  \<open>strings.Split(s, sep)\<close> for a separator of one byte, which is the only way the file
  calls it (\<open>sep = " "\<close>): the substrings between the separators, an empty substring
  between two adjacent separators and at either end; one empty substring for the empty
  input.
\<close>

fun strings_Split :: "string \<Rightarrow> char \<Rightarrow> string list" where
  "strings_Split [] sep = [[]]"
| "strings_Split (c # cs) sep =
     (if c = sep then [] # strings_Split cs sep
      else (case strings_Split cs sep of
              [] \<Rightarrow> [[c]]
            | t # ts \<Rightarrow> (c # t) # ts))"

text \<open>\<open>strings.Join\<close>, used only to say what the substrings of a split are.\<close>

fun strings_Join :: "string list \<Rightarrow> char \<Rightarrow> string" where
  "strings_Join [] sep = []"
| "strings_Join [t] sep = t"
| "strings_Join (t # u # ts) sep = t @ sep # strings_Join (u # ts) sep"

text \<open>
  A value of Go type \<open>interface{}\<close> as the JSON decoder leaves it in the samples map:
  nil, a string, or any other dynamic value (a number, an array, an object).
\<close>

datatype 'o iface = INil | IString string | IOther 'o

text \<open>\<open>fmt.Sprint(v)\<close> for one operand: \<open><nil>\<close> for nil, a string as it is.\<close>

fun fmt_Sprint :: "('o \<Rightarrow> string) \<Rightarrow> 'o iface \<Rightarrow> string" where
  "fmt_Sprint fmtOther INil = ''<nil>''"
| "fmt_Sprint fmtOther (IString s) = s"
| "fmt_Sprint fmtOther (IOther x) = fmtOther x"

text \<open>Indexing a Go map: the zero value (nil) for a key that is absent.\<close>

definition samples_index :: "(string \<rightharpoonup> 'o iface) \<Rightarrow> string \<Rightarrow> 'o iface" where
  "samples_index samples key = (case samples key of None \<Rightarrow> INil | Some v \<Rightarrow> v)"

definition stats_index :: "(string \<rightharpoonup> string) \<Rightarrow> string \<Rightarrow> string" where
  "stats_index m key = (case m key of None \<Rightarrow> [] | Some v \<Rightarrow> v)"

subsection \<open>Errors, log lines and the objects decoded from the REST API\<close>

text \<open>
  An error is the failure a client method reports (\<open>Err\<close>, with its message), an error
  wrapped by \<open>fmt.Errorf(format, err)\<close>, or one of the two failures of the retry helper.
  The structs of pkg/objects are declared outside the file; the records have the fields
  the file reads, and the rebalance counter is an integer.
\<close>

datatype error =
    Err string
  | Errorf string error
  | DeadlineExceeded
  | RetryExhausted "error option"

datatype arg = S string | E error

record objects_Node =
  Hostname :: string
  ThisNode :: bool

record objects_Counters =
  RebalanceSuccess :: int

record objects_Nodes =
  Nodes :: "objects_Node list"
  Counters :: objects_Counters
  Balanced :: bool
  RebalanceStatus :: string

record objects_Server =
  ServerHostname :: string
  Stats :: "string \<rightharpoonup> string"

record objects_Servers =
  Servers :: "objects_Server list"

record objects_BucketInfo =
  Name :: string

record 'o objects_Op =
  Samples :: "string \<rightharpoonup> 'o iface"

record 'o objects_PerNodeBucketStats =
  Op :: "'o objects_Op"

text \<open>
  \<open>util.Client\<close>: every method returns the decoded value together with the error, as
  the Go signature does, so that the code's use of the value after a logged error is
  modelled and not assumed away. \<open>timeNow\<close> and \<open>timeSleep\<close> are the clock of the
  outside world, in nanoseconds.
\<close>

record ('w, 'o) Client =
  clientNodes :: "'w \<Rightarrow> (objects_Nodes \<times> error option) \<times> 'w"
  clientServers :: "string \<Rightarrow> 'w \<Rightarrow> (objects_Servers \<times> error option) \<times> 'w"
  clientBuckets :: "'w \<Rightarrow> (objects_BucketInfo list \<times> error option) \<times> 'w"
  clientClusterName :: "'w \<Rightarrow> (string \<times> error option) \<times> 'w"
  clientGet :: "string \<Rightarrow> 'w \<Rightarrow> ('o objects_PerNodeBucketStats \<times> error option) \<times> 'w"
  timeNow :: "'w \<Rightarrow> int"
  timeSleep :: "64 word \<Rightarrow> 'w \<Rightarrow> 'w"

datatype 'f event =
    LogError string "arg list"
  | LogInfo string "arg list"
  | LogDebug string "arg list"
  | Println "arg list"
  | GaugeSet string "string list" 'f

text \<open>
  The program state: the outside world, the cells of every global \<open>GaugeVec\<close> (by the
  name of the Go variable), the effects performed so far, oldest first, and the
  goroutines started, each with the variables its closure captured (node, cluster name,
  refresh time).
\<close>

record ('w, 'f) state =
  world :: 'w
  gauges :: "string \<Rightarrow> (string list \<rightharpoonup> 'f)"
  trace :: "'f event list"
  spawned :: "(string \<times> string \<times> 64 word) list"

definition emit :: "'f event \<Rightarrow> ('w, 'f) state \<Rightarrow> ('w, 'f) state" where
  "emit e s = s\<lparr>trace := trace s @ [e]\<rparr>"

subsection \<open>strToFloatArr and setGaugeVec\<close>

definition strToFloatArr :: "(string \<Rightarrow> 'f option) \<Rightarrow> string \<Rightarrow> 'f list" where
  "strToFloatArr ParseFloat floatsStr =
     (let floatsStrArr = strings_Split floatsStr CHR '' ''
      in foldl (\<lambda>floatsArr f. case ParseFloat f of
                                 Some i \<Rightarrow> floatsArr @ [i]
                               | None \<Rightarrow> floatsArr)
           [] floatsStrArr)"

text \<open>
  \<open>vec.WithLabelValues(labelValues...).Set(x)\<close> on the cells of one gauge. A label
  tuple is the list of label values that names a cell. Every gauge of the file is
  declared with the three label names bucket, node and cluster, and every call of the
  file passes three values; what the library does with a tuple of another length is not
  part of the file and is not modelled.
\<close>

definition gauge_Set :: "(string list \<rightharpoonup> 'f) \<Rightarrow> string list \<Rightarrow> 'f \<Rightarrow> (string list \<rightharpoonup> 'f)" where
  "gauge_Set cells labelValues x = cells(labelValues \<mapsto> x)"

definition setGaugeVec ::
  "string \<Rightarrow> 'f list \<Rightarrow> string list \<Rightarrow> ('w, 'f) state \<Rightarrow> ('w, 'f) state" where
  "setGaugeVec vec stats labelValues s =
     (if length stats > 0
      then emit (GaugeSet vec labelValues (stats ! (length stats - 1)))
             (s\<lparr>gauges := (gauges s)(vec := gauge_Set (gauges s vec) labelValues
                                               (stats ! (length stats - 1)))\<rparr>)
      else s)"

subsection \<open>Rebalance gate, node resolver and statistics URL\<close>

definition getClusterBalancedStatus ::
  "('w, 'o) Client \<Rightarrow> ('w, 'f) state \<Rightarrow> (bool \<times> error option) \<times> ('w, 'f) state" where
  "getClusterBalancedStatus c s =
     (case clientNodes c (world s) of
        ((node, err), w) \<Rightarrow>
          (case err of
             Some e \<Rightarrow> ((False, Some (Errorf ''unable to retrieve nodes, %s'' e)), s\<lparr>world := w\<rparr>)
           | None \<Rightarrow>
               ((RebalanceSuccess (Counters node) > 0
                   \<or> (Balanced node \<and> RebalanceStatus node = ''none''), None),
                s\<lparr>world := w\<rparr>)))"

text \<open>The scan of \<open>getCurrentNode\<close>: it returns at the first node with the flag set.\<close>

fun firstThisNode :: "objects_Node list \<Rightarrow> string option" where
  "firstThisNode [] = None"
| "firstThisNode (node # rest) =
     (if ThisNode node then Some (Hostname node) else firstThisNode rest)"

definition getCurrentNode ::
  "('w, 'o) Client \<Rightarrow> ('w, 'f) state \<Rightarrow> (string \<times> error option) \<times> ('w, 'f) state" where
  "getCurrentNode c s =
     (case clientNodes c (world s) of
        ((nodes, err), w) \<Rightarrow>
          (case err of
             Some e \<Rightarrow> (([], Some (Errorf ''unable to retrieve nodes: %s'' e)), s\<lparr>world := w\<rparr>)
           | None \<Rightarrow>
               (case firstThisNode (Nodes nodes) of
                  Some hostname \<Rightarrow> ((hostname, None), s\<lparr>world := w\<rparr>)
                | None \<Rightarrow> (([], err), s\<lparr>world := w\<rparr>))))"

text \<open>
  The scan of \<open>getSpecificNodeBucketStatsURL\<close>: every server is visited and each match
  overwrites \<open>correctURI\<close>.
\<close>

fun scanServers :: "string \<Rightarrow> string \<Rightarrow> objects_Server list \<Rightarrow> string" where
  "scanServers node correctURI [] = correctURI"
| "scanServers node correctURI (server # rest) =
     scanServers node
       (if ServerHostname server = node then stats_index (Stats server) ''uri'' else correctURI)
       rest"

definition getSpecificNodeBucketStatsURL ::
  "('w, 'o) Client \<Rightarrow> string \<Rightarrow> string \<Rightarrow> ('w, 'f) state \<Rightarrow> string \<times> ('w, 'f) state" where
  "getSpecificNodeBucketStatsURL client bucket node s =
     (case clientServers client bucket (world s) of
        ((servers, err), w) \<Rightarrow>
          (let s1 = (case err of
                       Some e \<Rightarrow> emit (LogError ''unable to retrieve Servers %s'' [E e]) (s\<lparr>world := w\<rparr>)
                     | None \<Rightarrow> s\<lparr>world := w\<rparr>)
           in (scanServers node [] (Servers servers), s1)))"

definition getPerNodeBucketStats ::
  "('w, 'o) Client \<Rightarrow> string \<Rightarrow> string \<Rightarrow> ('w, 'f) state
     \<Rightarrow> (string \<rightharpoonup> 'o iface) \<times> ('w, 'f) state" where
  "getPerNodeBucketStats client bucketName nodeName s =
     (case getSpecificNodeBucketStatsURL client bucketName nodeName s of
        (url, s1) \<Rightarrow>
          (case clientGet client url (world s1) of
             ((bucketStats, err), w) \<Rightarrow>
               (let s2 = (case err of
                            Some e \<Rightarrow> emit (LogError ''unable to GET PerNodeBucketStats %s'' [E e])
                                        (s1\<lparr>world := w\<rparr>)
                          | None \<Rightarrow> s1\<lparr>world := w\<rparr>)
                in (Samples (Op bucketStats), s2))))"

subsection \<open>The collection loop\<close>

text \<open>
  The body of the loop over the buckets is one \<open>setGaugeVec\<close> call per tracked field,
  all of the same shape:
  \<^verbatim>\<open>setGaugeVec(*Vec, strToFloatArr(fmt.Sprint(samples["key"])), bucket.Name, node, clusterName)\<close>
  The tables list the Go variable and the key of every call, in the order of the source,
  one table for each block of calls that the source sets apart by blank lines.
\<close>

definition calls_AvgDiskUpdateTime :: "(string \<times> string) list" where
  "calls_AvgDiskUpdateTime =
     [(''AvgDiskUpdateTime'', ''avg_disk_update_time''),
      (''AvgDiskCommitTime'', ''avg_disk_commit_time''),
      (''AvgBgWaitTime'', ''avg_bg_wait_seconds''),
      (''AvgActiveTimestampDrift'', ''avg_active_timestamp_drift''),
      (''AvgReplicaTimestampDrift'', ''avg_replica_timestamp_drift'')]"

definition calls_CouchTotalDiskSize :: "(string \<times> string) list" where
  "calls_CouchTotalDiskSize =
     [(''CouchTotalDiskSize'', ''couch_total_disk_size''),
      (''CouchDocsFragmentation'', ''couch_docs_fragmentation''),
      (''CouchViewsFragmentation'', ''couch_views_fragmentation''),
      (''CouchDocsActualDiskSize'', ''couch_docs_actual_disk_size''),
      (''CouchDocsDataSize'', ''couch_docs_data_size''),
      (''CouchDocsDiskSize'', ''couch_docs_disk_size''),
      (''CouchSpatialDataSize'', ''couch_docs_spatial_data_size''),
      (''CouchSpatialDiskSize'', ''couch_docs_spatial_disk_size''),
      (''CouchSpatialOps'', ''couch_spatial_ops''),
      (''CouchViewsActualDiskSize'', ''couch_views_actual_disk_size''),
      (''CouchViewsDataSize'', ''couch_views_data_size''),
      (''CouchViewsDiskSize'', ''couch_views_disk_size''),
      (''CouchViewsOps'', ''couch_views_ops'')]"

definition calls_EpCacheMissRate :: "(string \<times> string) list" where
  "calls_EpCacheMissRate =
     [(''EpCacheMissRate'', ''ep_cache_miss_rate''),
      (''EpResidentItemsRate'', ''ep_resident_items_rate'')]"

definition calls_EpActiveAheadExceptions :: "(string \<times> string) list" where
  "calls_EpActiveAheadExceptions =
     [(''EpActiveAheadExceptions'', ''ep_active_ahead_exceptions''),
      (''EpActiveHlcDrift'', ''ep_active_hlc_drift''),
      (''EpActiveHlcDriftCount'', ''ep_active_hlc_drift_count''),
      (''EpBgFetched'', ''ep_bg_fetched''),
      (''EpClockCasDriftTheresholExceeded'', ''ep_clock_cas_drift_threshold_exceeded''),
      (''EpDataReadFailed'', ''ep_data_read_failed''),
      (''EpDataWriteFailed'', ''ep_data_write_failed'')]"

definition calls_EpDcp2iBackoff :: "(string \<times> string) list" where
  "calls_EpDcp2iBackoff =
     [(''EpDcp2iBackoff'', ''ep_dcp_2i_backoff''),
      (''EpDcp2iCount'', ''ep_dcp_2i_count''),
      (''EpDcp2iItemsRemaining'', ''ep_dcp_2i_items_remaining''),
      (''EpDcp2iItemsSent'', ''ep_dcp_2i_items_sent''),
      (''EpDcp2iProducerCount'', ''ep_dcp_2i_producers''),
      (''EpDcp2iTotalBacklogSize'', ''ep_dcp_2i_total_backlog_size''),
      (''EpDcp2iTotalBytes'', ''ep_dcp_2i_total_bytes'')]"

definition calls_EpDcpCbasBackoff :: "(string \<times> string) list" where
  "calls_EpDcpCbasBackoff =
     [(''EpDcpCbasBackoff'', ''ep_dcp_cbas_backoff''),
      (''EpDcpCbasCount'', ''ep_dcp_cbas_count''),
      (''EpDcpCbasItemsRemaining'', ''ep_dcp_cbas_items_remaining''),
      (''EpDcpCbasItemsSent'', ''ep_dcp_cbas_items_sent''),
      (''EpDcpCbasProducerCount'', ''ep_dcp_cbas_items_producer_count''),
      (''EpDcpCbasTotalBacklogSize'', ''ep_dcp_cbas_items_total_backlog_size''),
      (''EpDcpCbasTotalBytes'', ''ep_dcp_cbas_items_total_bytes'')]"

definition calls_EpDcpFtsBackoff :: "(string \<times> string) list" where
  "calls_EpDcpFtsBackoff =
     [(''EpDcpFtsBackoff'', ''ep_dcp_fts_backoff''),
      (''EpDcpFtsCount'', ''ep_dcp_fts_count''),
      (''EpDcpFtsItemsRemaining'', ''ep_dcp_fts_items_remaining''),
      (''EpDcpFtsItemsSent'', ''ep_dcp_fts_items_sent''),
      (''EpDcpFtsProducerCount'', ''ep_dcp_fts_producer_count''),
      (''EpDcpFtsTotalBacklogSize'', ''ep_dcp_fts_backlog_size''),
      (''EpDcpFtsTotalBytes'', ''ep_dcp_fts_total_bytes'')]"

definition calls_EpDcpOtherBackoff :: "(string \<times> string) list" where
  "calls_EpDcpOtherBackoff =
     [(''EpDcpOtherBackoff'', ''ep_dcp_other_backoff''),
      (''EpDcpOtherCount'', ''ep_dcp_other_count''),
      (''EpDcpOtherItemsRemaining'', ''ep_dcp_other_items_remaining''),
      (''EpDcpOtherItemsSent'', ''ep_dcp_other_items_sent''),
      (''EpDcpOtherProducerCount'', ''ep_dcp_other_producer_count''),
      (''EpDcpOtherTotalBacklogSize'', ''ep_dcp_other_total_backlog_size''),
      (''EpDcpOtherTotalBytes'', ''ep_dcp_other_total_bytes'')]"

definition calls_EpDcpReplicaBackoff :: "(string \<times> string) list" where
  "calls_EpDcpReplicaBackoff =
     [(''EpDcpReplicaBackoff'', ''ep_dcp_replica_backoff''),
      (''EpDcpReplicaCount'', ''ep_dcp_replica_count''),
      (''EpDcpReplicaItemsRemaining'', ''ep_dcp_replica_items_remaining''),
      (''EpDcpReplicaItemsSent'', ''ep_dcp_replica_items_sent''),
      (''EpDcpReplicaProducerCount'', ''ep_dcp_replica_producer_count''),
      (''EpDcpReplicaTotalBacklogSize'', ''ep_dcp_replica_total_backlog_size''),
      (''EpDcpReplicaTotalBytes'', ''ep_dcp_replica_total_bytes'')]"

definition calls_EpDcpViewsBackoff :: "(string \<times> string) list" where
  "calls_EpDcpViewsBackoff =
     [(''EpDcpViewsBackoff'', ''ep_dcp_views_backoff''),
      (''EpDcpViewsCount'', ''ep_dcp_views_count''),
      (''EpDcpViewsItemsRemaining'', ''ep_dcp_views_items_remaining''),
      (''EpDcpViewsItemsSent'', ''ep_dcp_views_items_sent''),
      (''EpDcpViewsProducerCount'', ''ep_dcp_views_producer_count''),
      (''EpDcpViewsTotalBacklogSize'', ''ep_dcp_views_total_backlog_size''),
      (''EpDcpViewsTotalBytes'', ''ep_dcp_views_total_bytes'')]"

definition calls_EpDcpViewsIndexesBackoff :: "(string \<times> string) list" where
  "calls_EpDcpViewsIndexesBackoff =
     [(''EpDcpViewsIndexesBackoff'', ''ep_dcp_views_indexes_backoff''),
      (''EpDcpViewsIndexesCount'', ''ep_dcp_views_indexes_count''),
      (''EpDcpViewsIndexesItemsRemaining'', ''ep_dcp_views_indexes_items_remaining''),
      (''EpDcpViewsIndexesItemsSent'', ''ep_dcp_views_indexes_items_sent''),
      (''EpDcpViewsIndexesProducerCount'', ''ep_dcp_views_indexes_producer_count''),
      (''EpDcpViewsIndexesTotalBacklogSize'', ''ep_dcp_views_indexes_total_backlog_size''),
      (''EpDcpViewsIndexesTotalBytes'', ''ep_dcp_views_indexes_total_bytes'')]"

definition calls_EpDcpXdcrBackoff :: "(string \<times> string) list" where
  "calls_EpDcpXdcrBackoff =
     [(''EpDcpXdcrBackoff'', ''ep_dcp_xdcr_backoff''),
      (''EpDcpXdcrCount'', ''ep_dcp_xdcr_count''),
      (''EpDcpXdcrItemsRemaining'', ''ep_dcp_xdcr_items_remaining''),
      (''EpDcpXdcrItemsSent'', ''ep_dcp_xdcr_items_sent''),
      (''EpDcpXdcrProducerCount'', ''ep_dcp_xdcr_producer_count''),
      (''EpDcpXdcrTotalBacklogSize'', ''ep_dcp_xdcr_total_backlog_size''),
      (''EpDcpXdcrTotalBytes'', ''ep_dcp_xdcr_total_bytes'')]"

definition calls_EpDiskqueueDrain :: "(string \<times> string) list" where
  "calls_EpDiskqueueDrain =
     [(''EpDiskqueueDrain'', ''ep_diskqueue_drain''),
      (''EpDiskqueueFill'', ''ep_diskqueue_fill''),
      (''EpDiskqueueItems'', ''ep_diskqueue_items'')]"

definition calls_EpFlusherTodo :: "(string \<times> string) list" where
  "calls_EpFlusherTodo =
     [(''EpFlusherTodo'', ''ep_flusher_todo''),
      (''EpItemCommitFailed'', ''ep_item_commit_failed''),
      (''EpKvSize'', ''ep_kv_size''),
      (''EpMaxSize'', ''ep_max_size''),
      (''EpMemHighWat'', ''ep_mem_high_wat''),
      (''EpMemLowWat'', ''ep_mem_low_wat''),
      (''EpMetaDataMemory'', ''ep_meta_data_memory'')]"

definition calls_EpNumNonResident :: "(string \<times> string) list" where
  "calls_EpNumNonResident =
     [(''EpNumNonResident'', ''ep_num_non_resident''),
      (''EpNumOpsDelMeta'', ''ep_num_ops_del_meta''),
      (''EpNumOpsDelRetMeta'', ''ep_num_ops_del_ret_meta''),
      (''EpNumOpsGetMeta'', ''ep_num_ops_get_meta''),
      (''EpNumOpsSetMeta'', ''ep_num_ops_set_meta''),
      (''EpNumOpsSetRetMeta'', ''ep_num_ops_set_ret_meta''),
      (''EpNumValueEjects'', ''ep_num_value_ejects'')]"

definition calls_EpOomErrors :: "(string \<times> string) list" where
  "calls_EpOomErrors =
     [(''EpOomErrors'', ''ep_oom_errors''),
      (''EpOpsCreate'', ''ep_ops_create''),
      (''EpOpsUpdate'', ''ep_ops_update''),
      (''EpOverhead'', ''ep_overhead''),
      (''EpQueueSize'', ''ep_queue_size'')]"

definition calls_EpReplicaAheadExceptions :: "(string \<times> string) list" where
  "calls_EpReplicaAheadExceptions =
     [(''EpReplicaAheadExceptions'', ''ep_replica_ahead_exceptions''),
      (''EpReplicaHlcDrift'', ''ep_replica_hlc_drift''),
      (''EpReplicaHlcDriftCount'', ''ep_replica_hlc_drift_count''),
      (''EpTmpOomErrors'', ''ep_tmp_oom_errors''),
      (''EpVbTotal'', ''ep_vb_total'')]"

definition calls_VbAvgActiveQueueAge :: "(string \<times> string) list" where
  "calls_VbAvgActiveQueueAge =
     [(''VbAvgActiveQueueAge'', ''vb_avg_active_queue_age''),
      (''VbAvgReplicaQueueAge'', ''vb_avg_replica_queue_age''),
      (''VbAvgPendingQueueAge'', ''vb_avg_pending_queue_age''),
      (''VbAvgTotalQueueAge'', ''vb_avg_total_queue_age''),
      (''VbActiveResidentItemsRatio'', ''vb_active_resident_items_ratio''),
      (''VbReplicaResidentItemsRatio'', ''vb_replica_resident_items_ratio''),
      (''VbPendingResidentItemsRatio'', ''vb_pending_resident_items_ratio'')]"

definition calls_VbActiveEject :: "(string \<times> string) list" where
  "calls_VbActiveEject =
     [(''VbActiveEject'', ''vb_active_eject''),
      (''VbActiveItmMemory'', ''vb_active_itm_memory''),
      (''VbActiveMetaDataMemory'', ''vb_active_meta_data_memory''),
      (''VbActiveNum'', ''vb_active_num''),
      (''VbActiveNumNonresident'', ''vb_active_num_non_resident''),
      (''VbActiveOpsCreate'', ''vb_active_ops_create''),
      (''VbActiveOpsUpdate'', ''vb_active_ops_update''),
      (''VbActiveQueueAge'', ''vb_active_queue_age''),
      (''VbActiveQueueDrain'', ''vb_active_queue_drain''),
      (''VbActiveQueueFill'', ''vb_active_queue_fill''),
      (''VbActiveQueueSize'', ''vb_active_queue_size''),
      (''VbActiveQueueItems'', ''vb_active_queue_items'')]"

definition calls_VbPendingCurrItems :: "(string \<times> string) list" where
  "calls_VbPendingCurrItems =
     [(''VbPendingCurrItems'', ''vb_pending_curr_items''),
      (''VbPendingEject'', ''vb_pending_eject''),
      (''VbPendingItmMemory'', ''vb_pending_itm_memory''),
      (''VbPendingMetaDataMemory'', ''vb_pending_meta_data_memory''),
      (''VbPendingNum'', ''vb_pending_num''),
      (''VbPendingNumNonResident'', ''vb_pending_num_non_resident''),
      (''VbPendingOpsCreate'', ''vb_pending_ops_create''),
      (''VbPendingOpsUpdate'', ''vb_pending_ops_update''),
      (''VbPendingQueueAge'', ''vb_pending_queue_age''),
      (''VbPendingQueueDrain'', ''vb_pending_queue_drain''),
      (''VbPendingQueueFill'', ''vb_pending_queue_fill''),
      (''VbPendingQueueSize'', ''vb_pending_queue_size'')]"

definition calls_VbReplicaCurrItems :: "(string \<times> string) list" where
  "calls_VbReplicaCurrItems =
     [(''VbReplicaCurrItems'', ''vb_replica_curr_items''),
      (''VbReplicaEject'', ''vb_replica_eject''),
      (''VbReplicaItmMemory'', ''vb_replica_itm_memory''),
      (''VbReplicaMetaDataMemory'', ''vb_replica_meta_data_memory''),
      (''VbReplicaNum'', ''vb_replica_num''),
      (''VbReplicaNumNonResident'', ''vb_replica_num_non_resident''),
      (''VbReplicaOpsCreate'', ''vb_replica_ops_create''),
      (''VbReplicaOpsUpdate'', ''vb_replica_ops_update''),
      (''VbReplicaQueueAge'', ''vb_replica_queue_age''),
      (''VbReplicaQueueDrain'', ''vb_replica_queue_drain''),
      (''VbReplicaQueueFill'', ''vb_replica_queue_fill''),
      (''VbReplicaQueueSize'', ''vb_replica_queue_size'')]"

definition calls_VbTotalQueueAge :: "(string \<times> string) list" where
  "calls_VbTotalQueueAge =
     [(''VbTotalQueueAge'', ''vb_total_queue_age''),
      (''HibernatedRequests'', ''hibernated_requests''),
      (''HibernatedRequests'', ''hibernated_waked''),
      (''XdcOps'', ''xdc_ops''),
      (''CpuIdleMs'', ''cpu_idle_ms''),
      (''CpuLocalMs'', ''cpu_local_ms''),
      (''CpuUtilizationRate'', ''cpu_utilization_rate'')]"

definition calls_BgWaitCount :: "(string \<times> string) list" where
  "calls_BgWaitCount =
     [(''BgWaitCount'', ''bg_wait_count''),
      (''BgWaitTotal'', ''bg_wait_total''),
      (''BytesRead'', ''bytes_read''),
      (''BytesWritten'', ''bytes_written''),
      (''CasBadVal'', ''cas_bad_val''),
      (''CasHits'', ''cas_hits''),
      (''CasMisses'', ''cas_misses''),
      (''CmdGet'', ''cmd_get''),
      (''CmdSet'', ''cmd_set''),
      (''HitRatio'', ''hit_ratio'')]"

definition calls_CurrConnections :: "(string \<times> string) list" where
  "calls_CurrConnections =
     [(''CurrConnections'', ''curr_connections''),
      (''CurrItems'', ''curr_items''),
      (''CurrItemsTot'', ''curr_items_tot'')]"

definition calls_DecrHits :: "(string \<times> string) list" where
  "calls_DecrHits =
     [(''DecrHits'', ''decr_hits''),
      (''DecrMisses'', ''decr_misses''),
      (''DeleteHits'', ''delete_hits''),
      (''DeleteMisses'', ''delete_misses'')]"

definition calls_DiskCommitCount :: "(string \<times> string) list" where
  "calls_DiskCommitCount =
     [(''DiskCommitCount'', ''disk_commit_count''),
      (''DiskCommitTotal'', ''disk_commit_total''),
      (''DiskUpdateCount'', ''disk_update_count''),
      (''DiskUpdateTotal'', ''disk_update_total''),
      (''DiskWriteQueue'', ''disk_write_queue'')]"

definition calls_Evictions :: "(string \<times> string) list" where
  "calls_Evictions =
     [(''Evictions'', ''evictions''),
      (''GetHits'', ''get_hits''),
      (''GetMisses'', ''get_misses''),
      (''IncrHits'', ''incr_hits''),
      (''IncrMisses'', ''incr_misses''),
      (''Misses'', ''misses''),
      (''Ops'', ''ops'')]"

definition calls_MemActualFree :: "(string \<times> string) list" where
  "calls_MemActualFree =
     [(''MemActualFree'', ''mem_actual_free''),
      (''MemActualUsed'', ''mem_actual_used''),
      (''MemFree'', ''mem_free''),
      (''MemUsed'', ''mem_used''),
      (''MemTotal'', ''mem_total''),
      (''MemUsedSys'', ''mem_used_sys''),
      (''RestRequests'', ''rest_requests''),
      (''SwapTotal'', ''swap_total''),
      (''SwapUsed'', ''swap_used'')]"

definition trackedFields :: "(string \<times> string) list" where
  "trackedFields =
     calls_AvgDiskUpdateTime
       @ calls_CouchTotalDiskSize
       @ calls_EpCacheMissRate
       @ calls_EpActiveAheadExceptions
       @ calls_EpDcp2iBackoff
       @ calls_EpDcpCbasBackoff
       @ calls_EpDcpFtsBackoff
       @ calls_EpDcpOtherBackoff
       @ calls_EpDcpReplicaBackoff
       @ calls_EpDcpViewsBackoff
       @ calls_EpDcpViewsIndexesBackoff
       @ calls_EpDcpXdcrBackoff
       @ calls_EpDiskqueueDrain
       @ calls_EpFlusherTodo
       @ calls_EpNumNonResident
       @ calls_EpOomErrors
       @ calls_EpReplicaAheadExceptions
       @ calls_VbAvgActiveQueueAge
       @ calls_VbActiveEject
       @ calls_VbPendingCurrItems
       @ calls_VbReplicaCurrItems
       @ calls_VbTotalQueueAge
       @ calls_BgWaitCount
       @ calls_CurrConnections
       @ calls_DecrHits
       @ calls_DiskCommitCount
       @ calls_Evictions
       @ calls_MemActualFree"

definition publishSamples ::
  "(string \<Rightarrow> 'f option) \<Rightarrow> ('o \<Rightarrow> string) \<Rightarrow> (string \<rightharpoonup> 'o iface) \<Rightarrow> string \<Rightarrow> string \<Rightarrow> string
     \<Rightarrow> (string \<times> string) list \<Rightarrow> ('w, 'f) state \<Rightarrow> ('w, 'f) state" where
  "publishSamples ParseFloat fmtOther samples bucketName node clusterName calls s =
     foldl (\<lambda>t (vec, key).
              setGaugeVec vec (strToFloatArr ParseFloat (fmt_Sprint fmtOther (samples_index samples key)))
                [bucketName, node, clusterName] t)
       s calls"

definition collectBucket ::
  "('w, 'o) Client \<Rightarrow> (string \<Rightarrow> 'f option) \<Rightarrow> ('o \<Rightarrow> string) \<Rightarrow> string \<Rightarrow> string
     \<Rightarrow> objects_BucketInfo \<Rightarrow> ('w, 'f) state \<Rightarrow> ('w, 'f) state" where
  "collectBucket client ParseFloat fmtOther node clusterName bucket s =
     (case getPerNodeBucketStats client (Name bucket) node
             (emit (LogDebug ''Collecting per-node bucket stats, node=%s, bucket=%s''
                      [S node, S (Name bucket)]) s) of
        (samples, s1) \<Rightarrow>
          publishSamples ParseFloat fmtOther samples (Name bucket) node clusterName trackedFields s1)"

definition time_Second :: "64 word" where
  "time_Second = 1000000000"

definition time_Sleep :: "('w, 'o) Client \<Rightarrow> 64 word \<Rightarrow> ('w, 'f) state \<Rightarrow> ('w, 'f) state" where
  "time_Sleep client d s = s\<lparr>world := timeSleep client d (world s)\<rparr>"

text \<open>One pass through the body of the \<open>for\<close> loop of the goroutine.\<close>

definition collectionLoopIteration ::
  "('w, 'o) Client \<Rightarrow> (string \<Rightarrow> 'f option) \<Rightarrow> ('o \<Rightarrow> string) \<Rightarrow> string \<Rightarrow> string \<Rightarrow> 64 word
     \<Rightarrow> ('w, 'f) state \<Rightarrow> ('w, 'f) state" where
  "collectionLoopIteration client ParseFloat fmtOther node clusterName refreshTime s =
     (case clientBuckets client (world s) of
        ((buckets, err), w) \<Rightarrow>
          (let s1 = (case err of
                       Some e \<Rightarrow> emit (LogError ''Unable to get buckets %s'' [E e]) (s\<lparr>world := w\<rparr>)
                     | None \<Rightarrow> s\<lparr>world := w\<rparr>);
               s2 = foldl (\<lambda>t bucket. collectBucket client ParseFloat fmtOther node clusterName bucket t)
                      s1 buckets
           in time_Sleep client (time_Second * refreshTime) s2))"

text \<open>
  The loop has no exit. \<open>collectionLoop \<dots> k\<close> is the state after its first \<open>k\<close> passes.
\<close>

fun collectionLoop ::
  "('w, 'o) Client \<Rightarrow> (string \<Rightarrow> 'f option) \<Rightarrow> ('o \<Rightarrow> string) \<Rightarrow> string \<Rightarrow> string \<Rightarrow> 64 word
     \<Rightarrow> nat \<Rightarrow> ('w, 'f) state \<Rightarrow> ('w, 'f) state" where
  "collectionLoop client ParseFloat fmtOther node clusterName refreshTime 0 s = s"
| "collectionLoop client ParseFloat fmtOther node clusterName refreshTime (Suc k) s =
     collectionLoop client ParseFloat fmtOther node clusterName refreshTime k
       (collectionLoopIteration client ParseFloat fmtOther node clusterName refreshTime s)"

subsection \<open>Retry helper\<close>

text \<open>
  Modelled from the spec: \<open>util.Retry(ctx, interval, maxAttempts, f)\<close>, whose package
  pkg/util is not among the sources. The spec: it "runs a function repeatedly with a fixed
  delay and bounded attempt count inside a deadline, until it returns success or the
  budget is exhausted", and it "blocks the calling flow between attempts for a fixed
  delay". \<open>expired\<close> tells whether the deadline of \<open>ctx\<close> has passed, \<open>delay\<close> is the
  wait of one interval, \<open>lastErr\<close> the error of the latest attempt.
\<close>

fun Retry ::
  "('s \<Rightarrow> bool) \<Rightarrow> ('s \<Rightarrow> 's) \<Rightarrow> nat \<Rightarrow> ('s \<Rightarrow> (bool \<times> error option) \<times> 's) \<Rightarrow> error option \<Rightarrow> 's
     \<Rightarrow> error option \<times> 's" where
  "Retry expired delay 0 f lastErr s = (Some (RetryExhausted lastErr), s)"
| "Retry expired delay (Suc n) f lastErr s =
     (if expired s then (Some DeadlineExceeded, s)
      else (case f s of
              ((ok, err), s1) \<Rightarrow>
                if ok then (None, s1)
                else Retry expired delay n f err (if n = 0 then s1 else delay s1)))"

text \<open>A function instrumented with the number of times it has been invoked.\<close>

definition counting :: "('s \<Rightarrow> 'r \<times> 's) \<Rightarrow> 's \<times> nat \<Rightarrow> 'r \<times> ('s \<times> nat)" where
  "counting f = (\<lambda>(s, calls). case f s of (r, s1) \<Rightarrow> (r, (s1, Suc calls)))"

text \<open>
  The state in which attempt number \<open>i\<close> (from 0) of the helper starts when every
  attempt before it has failed: each failed attempt is followed by one delay.
\<close>

primrec beforeAttempt :: "('s \<Rightarrow> 'r \<times> 's) \<Rightarrow> ('s \<Rightarrow> 's) \<Rightarrow> nat \<Rightarrow> 's \<Rightarrow> 's" where
  "beforeAttempt f delay 0 s = s"
| "beforeAttempt f delay (Suc i) s = beforeAttempt f delay i (delay (snd (f s)))"

text \<open>
  \<open>context.WithTimeout(context.Background(), d)\<close> is the deadline, and \<open>ctxDone\<close> tells
  whether it has passed.
\<close>

definition context_WithTimeout :: "('w, 'o) Client \<Rightarrow> 64 word \<Rightarrow> ('w, 'f) state \<Rightarrow> int" where
  "context_WithTimeout client d s = timeNow client (world s) + sint d"

definition ctxDone :: "('w, 'o) Client \<Rightarrow> int \<Rightarrow> ('w, 'f) state \<Rightarrow> bool" where
  "ctxDone client deadline s = (deadline \<le> timeNow client (world s))"

subsection \<open>collectPerNodeBucketMetrics and RunPerNodeBucketStatsCollection\<close>

text \<open>
  The function passed to \<open>util.Retry\<close> by \<open>collectPerNodeBucketMetrics\<close>. The
  \<open>go func() { for { \<dots> } }()\<close> statement adds the goroutine, with the variables it
  captured, to \<open>spawned\<close>; what the goroutine does is \<open>collectionLoop\<close>.
\<close>

definition rebalanceGate ::
  "('w, 'o) Client \<Rightarrow> string \<Rightarrow> 64 word \<Rightarrow> string \<Rightarrow> ('w, 'f) state
     \<Rightarrow> (bool \<times> error option) \<times> ('w, 'f) state" where
  "rebalanceGate client node refreshTime clusterName s =
     (case getClusterBalancedStatus client s of
        ((rebalanced, err), s1) \<Rightarrow>
          (let s2 = (case err of
                       Some e \<Rightarrow> emit (LogError ''Unable to get rebalance status %s'' [E e]) s1
                     | None \<Rightarrow> s1)
           in if \<not> rebalanced
              then ((False, err), emit (LogInfo ''Waiting for Rebalance... retrying...'' []) s2)
              else ((True, None),
                    emit (LogInfo ''Per Node Bucket Stats Go Thread executed successfully'' [])
                      (s2\<lparr>spawned := spawned s2 @ [(node, clusterName, refreshTime)]\<rparr>))))"

definition collectPerNodeBucketMetrics ::
  "('w, 'o) Client \<Rightarrow> string \<Rightarrow> 64 word \<Rightarrow> ('w, 'f) state \<Rightarrow> ('w, 'f) state" where
  "collectPerNodeBucketMetrics client node refreshTime s =
     (let ctx = context_WithTimeout client (600 * time_Second) s
      in case clientClusterName client (world s) of
           ((clusterName, err), w) \<Rightarrow>
             (case err of
                Some e \<Rightarrow> emit (LogError ''%s'' [E e]) (s\<lparr>world := w\<rparr>)
              | None \<Rightarrow>
                  (case Retry (ctxDone client ctx) (time_Sleep client (20 * time_Second)) 10
                          (rebalanceGate client node refreshTime clusterName) None (s\<lparr>world := w\<rparr>) of
                     (outerErr, s1) \<Rightarrow>
                       (case outerErr of
                          Some e \<Rightarrow> emit (LogError ''Getting Per Node Bucket Stats failed %s'' [E e]) s1
                        | None \<Rightarrow> s1))))"

definition resolveAndCollect ::
  "('w, 'o) Client \<Rightarrow> 64 word \<Rightarrow> ('w, 'f) state \<Rightarrow> (bool \<times> error option) \<times> ('w, 'f) state" where
  "resolveAndCollect client refreshTime s =
     (case getCurrentNode client s of
        ((currNode, err), s1) \<Rightarrow>
          (case err of
             Some e \<Rightarrow>
               ((False, err), emit (LogError ''could not get current node, will retry. %s'' [E e]) s1)
           | None \<Rightarrow> ((True, None), collectPerNodeBucketMetrics client currNode refreshTime s1)))"

definition RunPerNodeBucketStatsCollection ::
  "('w, 'o) Client \<Rightarrow> 64 word \<Rightarrow> ('w, 'f) state \<Rightarrow> ('w, 'f) state" where
  "RunPerNodeBucketStatsCollection client refreshTime s =
     (let ctx = context_WithTimeout client (60 * time_Second) s
      in case Retry (ctxDone client ctx) (time_Sleep client (20 * time_Second)) 8
                (resolveAndCollect client refreshTime) None s of
           (outerErr, s1) \<Rightarrow>
             (case outerErr of
                Some e \<Rightarrow> emit (Println [E e]) (emit (Println [S ''getting default stats failed'']) s1)
              | None \<Rightarrow> s1))"

text \<open>
  A run of \<open>collectPerNodeBucketMetrics\<close> followed by the first \<open>k\<close> passes of every
  goroutine that the run started.
\<close>

definition collectRun ::
  "('w, 'o) Client \<Rightarrow> (string \<Rightarrow> 'f option) \<Rightarrow> ('o \<Rightarrow> string) \<Rightarrow> string \<Rightarrow> 64 word \<Rightarrow> nat
     \<Rightarrow> ('w, 'f) state \<Rightarrow> ('w, 'f) state" where
  "collectRun client ParseFloat fmtOther node refreshTime k s =
     (let s1 = collectPerNodeBucketMetrics client node refreshTime s
      in foldl (\<lambda>t (n, c, r). collectionLoop client ParseFloat fmtOther n c r k t)
           s1 (drop (length (spawned s)) (spawned s1)))"

text \<open>The gauge writes among a list of effects, as (gauge, label tuple) pairs.\<close>

fun gaugeWrites :: "'f event list \<Rightarrow> (string \<times> string list) list" where
  "gaugeWrites [] = []"
| "gaugeWrites (GaugeSet vec labelValues x # es) = (vec, labelValues) # gaugeWrites es"
| "gaugeWrites (e # es) = gaugeWrites es"

text \<open>
  \<open>writesOnly Q s s'\<close>: the run from \<open>s\<close> to \<open>s'\<close> only added effects, and every
  gauge write it added satisfies \<open>Q\<close>. \<open>labelledBy node clusterName\<close> holds of a write
  whose label tuple is (some bucket, \<open>node\<close>, \<open>clusterName\<close>).
\<close>

definition writesOnly ::
  "(string \<times> string list \<Rightarrow> bool) \<Rightarrow> ('w, 'f) state \<Rightarrow> ('w, 'f) state \<Rightarrow> bool" where
  "writesOnly Q s s' =
     (take (length (trace s)) (trace s') = trace s
      \<and> list_all Q (gaugeWrites (drop (length (trace s)) (trace s'))))"

definition labelledBy :: "string \<Rightarrow> string \<Rightarrow> string \<times> string list \<Rightarrow> bool" where
  "labelledBy node clusterName write =
     (case snd write of
        [bucket, n, c] \<Rightarrow> n = node \<and> c = clusterName
      | _ \<Rightarrow> False)"

subsection \<open>Concrete clusters for the examples\<close>

text \<open>
  A cluster whose answers never change. Its world is the clock alone: a request takes no
  time and a sleep of a positive duration advances the clock by it.
\<close>

definition staticClient ::
  "objects_Nodes \<times> error option \<Rightarrow> (string \<Rightarrow> objects_Servers \<times> error option)
     \<Rightarrow> objects_BucketInfo list \<times> error option \<Rightarrow> string \<times> error option
     \<Rightarrow> (string \<Rightarrow> 'o objects_PerNodeBucketStats \<times> error option) \<Rightarrow> (int, 'o) Client" where
  "staticClient nodes servers buckets clusterName get =
     \<lparr>clientNodes = (\<lambda>w. (nodes, w)),
      clientServers = (\<lambda>bucket w. (servers bucket, w)),
      clientBuckets = (\<lambda>w. (buckets, w)),
      clientClusterName = (\<lambda>w. (clusterName, w)),
      clientGet = (\<lambda>url w. (get url, w)),
      timeNow = (\<lambda>w. w),
      timeSleep = (\<lambda>d w. if 0 < sint d then w + sint d else w)\<rparr>"

definition initState :: "(int, 'f) state" where
  "initState = \<lparr>world = 0, gauges = (\<lambda>vec. Map.empty), trace = [], spawned = []\<rparr>"

definition noStats :: "'o objects_PerNodeBucketStats" where
  "noStats = \<lparr>Op = \<lparr>Samples = Map.empty\<rparr>\<rparr>"

text \<open>
  A settled cluster (balanced, no rebalance running) with one bucket \<open>default\<close>, one
  node flagged as current with hostname \<open>node1\<close>, cluster name \<open>prod\<close>, and the given
  samples at the statistics URL \<open>uri\<close> of that node.
\<close>

definition clusterWithSamples :: "(string \<rightharpoonup> 'o iface) \<Rightarrow> string \<Rightarrow> (int, 'o) Client" where
  "clusterWithSamples samples uri =
     staticClient
       (\<lparr>Nodes = [\<lparr>Hostname = ''node1'', ThisNode = True\<rparr>],
         Counters = \<lparr>RebalanceSuccess = 0\<rparr>, Balanced = True, RebalanceStatus = ''none''\<rparr>, None)
       (\<lambda>bucket. (\<lparr>Servers = [\<lparr>ServerHostname = ''node1'', Stats = [''uri'' \<mapsto> uri]\<rparr>]\<rparr>, None))
       ([\<lparr>Name = ''default''\<rparr>], None)
       (''prod'', None)
       (\<lambda>url. if url = uri then (\<lparr>Op = \<lparr>Samples = samples\<rparr>\<rparr>, None)
              else (noStats, Some (Err ''not found'')))"

text \<open>
  The cluster of the end-to-end scenario of the spec: the samples are
  \<open>{"curr_items": "10 20 30"}\<close>.
\<close>

definition scenarioClient :: "string \<Rightarrow> (int, 'o) Client" where
  "scenarioClient uri = clusterWithSamples [''curr_items'' \<mapsto> IString ''10 20 30''] uri"

text \<open>Clusters that answer only the request an example is about.\<close>

definition nodesExample :: "int \<Rightarrow> bool \<Rightarrow> string \<Rightarrow> objects_Nodes" where
  "nodesExample success balanced status =
     \<lparr>Nodes = [], Counters = \<lparr>RebalanceSuccess = success\<rparr>, Balanced = balanced,
      RebalanceStatus = status\<rparr>"

definition nodeListExample :: "objects_Node list \<Rightarrow> objects_Nodes" where
  "nodeListExample nodes =
     \<lparr>Nodes = nodes, Counters = \<lparr>RebalanceSuccess = 0\<rparr>, Balanced = True,
      RebalanceStatus = ''none''\<rparr>"

definition nodesClient :: "objects_Nodes \<times> error option \<Rightarrow> (int, unit) Client" where
  "nodesClient nodes =
     staticClient nodes (\<lambda>bucket. (\<lparr>Servers = []\<rparr>, None)) ([], None) ([], None)
       (\<lambda>url. (noStats, None))"

definition serversClient :: "objects_Server list \<Rightarrow> (int, unit) Client" where
  "serversClient servers =
     staticClient (nodesExample 0 True ''none'', None) (\<lambda>bucket. (\<lparr>Servers = servers\<rparr>, None))
       ([], None) ([], None) (\<lambda>url. (noStats, None))"

section \<open>Properties\<close>

subsection \<open>Sample extractor\<close>

lemma strings_Split_nonempty: "strings_Split s sep \<noteq> []"
  by (induction s) (auto split: list.splits)

lemma strings_Join_Cons': "strings_Join ((c # t) # ts) sep = c # strings_Join (t # ts) sep"
  by (cases ts) auto

lemma strings_Join_Nil_Cons: "ts \<noteq> [] \<Longrightarrow> strings_Join ([] # ts) sep = sep # strings_Join ts sep"
  by (cases ts) auto

lemma strings_Join_Split: "strings_Join (strings_Split s sep) sep = s"
proof (induction s)
  case Nil
  show ?case by simp
next
  case (Cons c cs)
  show ?case
  proof (cases "c = sep")
    case True
    then show ?thesis using Cons strings_Split_nonempty [of cs sep]
      by (simp add: strings_Join_Nil_Cons)
  next
    case False
    obtain t ts where ts: "strings_Split cs sep = t # ts"
      using strings_Split_nonempty [of cs sep] by (cases "strings_Split cs sep") auto
    with False Cons show ?thesis by (simp add: strings_Join_Cons')
  qed
qed

lemma strings_Split_no_sep: "t \<in> set (strings_Split s sep) \<Longrightarrow> sep \<notin> set t"
  by (induction s arbitrary: t) (auto split: if_splits list.splits)

lemma strings_Split_length: "length (strings_Split s sep) = Suc (count_list s sep)"
  by (induction s) (auto split: list.splits simp: strings_Split_nonempty)

lemma parse_loop:
  "foldl (\<lambda>floatsArr f. case pf f of Some i \<Rightarrow> floatsArr @ [i] | None \<Rightarrow> floatsArr) acc ts
     = acc @ map (the \<circ> pf) (filter (\<lambda>t. pf t \<noteq> None) ts)"
  by (induction ts arbitrary: acc) (auto split: option.splits)

lemma strToFloatArr_tokens:
  "strToFloatArr pf s = map (the \<circ> pf) (filter (\<lambda>t. pf t \<noteq> None) (strings_Split s CHR '' ''))"
  by (simp add: strToFloatArr_def parse_loop)

text \<open>
  C1. For every input string, \<open>strToFloatArr\<close> returns exactly the tokens of the string,
  split at every single space, that parse as 64-bit floats, in their original order; a
  token that does not parse, the empty token included, is dropped. The tokens are those of
  the split: joined by single spaces they give the string back, and none contains a
  space. For the empty string, and for a string none of whose tokens parses, the result
  is the empty sequence. Example: \<open>"1.0 bad 2.5 "\<close> yields the values of \<open>1.0\<close> and
  \<open>2.5\<close>.
\<close>

theorem strToFloatArr_spec:
  "strToFloatArr pf s
     = map (the \<circ> pf) (filter (\<lambda>t. pf t \<noteq> None) (strings_Split s CHR '' ''))
   \<and> strings_Join (strings_Split s CHR '' '') CHR '' '' = s
   \<and> (\<forall>t \<in> set (strings_Split s CHR '' ''). CHR '' '' \<notin> set t)
   \<and> (pf [] = None \<longrightarrow> strToFloatArr pf [] = [])
   \<and> ((\<forall>t \<in> set (strings_Split s CHR '' ''). pf t = None) \<longrightarrow> strToFloatArr pf s = [])
   \<and> (pf ''1.0'' = Some a \<and> pf ''bad'' = None \<and> pf ''2.5'' = Some b \<and> pf [] = None
        \<longrightarrow> strToFloatArr pf ''1.0 bad 2.5 '' = [a, b])"
proof -
  have all_fail: "strToFloatArr pf s = []" if "\<forall>t \<in> set (strings_Split s CHR '' ''). pf t = None"
  proof -
    from that have "filter (\<lambda>t. pf t \<noteq> None) (strings_Split s CHR '' '') = []"
      by (simp add: filter_empty_conv)
    then show ?thesis by (simp add: strToFloatArr_tokens)
  qed
  have ex: "strToFloatArr pf ''1.0 bad 2.5 '' = [a, b]"
    if "pf ''1.0'' = Some a \<and> pf ''bad'' = None \<and> pf ''2.5'' = Some b \<and> pf [] = None"
    using that by (simp add: strToFloatArr_def)
  have emp: "strToFloatArr pf [] = []" if "pf [] = None"
    using that by (simp add: strToFloatArr_def)
  have nosep: "\<forall>t \<in> set (strings_Split s CHR '' ''). CHR '' '' \<notin> set t"
    using strings_Split_no_sep by blast
  show ?thesis
    using all_fail ex emp nosep strToFloatArr_tokens [of pf s] strings_Join_Split [of s "CHR '' ''"]
    by blast
qed

theorem strToFloatArr_spec_witness:
  "strToFloatArr (map_of [(''1.0'', 1 :: real), (''2.5'', 5 / 2)]) ''1.0 bad 2.5 '' = [1, 5 / 2]
   \<and> strToFloatArr (map_of [(''1.0'', 1 :: real), (''2.5'', 5 / 2)]) [] = []
   \<and> strToFloatArr (map_of [(''1.0'', 1 :: real), (''2.5'', 5 / 2)]) ''x  y'' = []"
  using strToFloatArr_spec [of "map_of [(''1.0'', 1 :: real), (''2.5'', 5 / 2)]" "''x  y''" 1 "5 / 2"]
  by simp

subsection \<open>Publishing a series\<close>

text \<open>
  C2. For every gauge, label tuple and float sequence, \<open>setGaugeVec\<close> does nothing
  when the sequence is empty: the state, and with it the cell at that label tuple, is
  what it was. When the sequence is not empty, the cell of the gauge at that label tuple
  becomes the last element of the sequence, one \<open>Set\<close> is performed, and no other cell
  of any gauge changes.
\<close>

theorem setGaugeVec_spec:
  "setGaugeVec vec [] labelValues s = s
   \<and> (stats \<noteq> [] \<longrightarrow>
        gauges (setGaugeVec vec stats labelValues s) vec labelValues = Some (last stats)
        \<and> (\<forall>g l. (g, l) \<noteq> (vec, labelValues) \<longrightarrow>
              gauges (setGaugeVec vec stats labelValues s) g l = gauges s g l)
        \<and> trace (setGaugeVec vec stats labelValues s)
            = trace s @ [GaugeSet vec labelValues (last stats)]
        \<and> world (setGaugeVec vec stats labelValues s) = world s
        \<and> spawned (setGaugeVec vec stats labelValues s) = spawned s)"
  by (auto simp: setGaugeVec_def emit_def gauge_Set_def last_conv_nth)

theorem setGaugeVec_spec_witness:
  "setGaugeVec ''CurrItems'' [] [''default'', ''node1'', ''prod'']
       (initState\<lparr>gauges := (\<lambda>vec. [[''default'', ''node1'', ''prod''] \<mapsto> 5 :: real])\<rparr>)
     = initState\<lparr>gauges := (\<lambda>vec. [[''default'', ''node1'', ''prod''] \<mapsto> 5 :: real])\<rparr>
   \<and> gauges (setGaugeVec ''CurrItems'' [3, 7 :: real] [''default'', ''node1'', ''prod'']
               (initState\<lparr>gauges := (\<lambda>vec. [[''default'', ''node1'', ''prod''] \<mapsto> 5])\<rparr>))
        ''CurrItems'' [''default'', ''node1'', ''prod''] = Some 7"
  using setGaugeVec_spec [of "''CurrItems''" "[''default'', ''node1'', ''prod'']"
      "initState\<lparr>gauges := (\<lambda>vec. [[''default'', ''node1'', ''prod''] \<mapsto> 5 :: real])\<rparr>" "[3, 7 :: real]"]
  by simp

subsection \<open>Rebalance gate\<close>

text \<open>
  C3. When the node list is fetched, \<open>getClusterBalancedStatus\<close> returns true exactly
  when the count of successful rebalances is positive, or the cluster is flagged
  balanced and its rebalance status is \<open>none\<close>, and it returns no error. When the fetch
  fails it returns false, and it returns an error exactly then.
\<close>

theorem getClusterBalancedStatus_spec:
  assumes "clientNodes c (world s) = ((node, err), w)"
  shows "(err = None \<longrightarrow>
            fst (getClusterBalancedStatus c s)
              = (0 < RebalanceSuccess (Counters node)
                   \<or> (Balanced node \<and> RebalanceStatus node = ''none''), None))
         \<and> (err \<noteq> None \<longrightarrow> \<not> fst (fst (getClusterBalancedStatus c s)))
         \<and> (snd (fst (getClusterBalancedStatus c s)) \<noteq> None \<longleftrightarrow> err \<noteq> None)"
  using assms by (auto simp: getClusterBalancedStatus_def split: option.splits)

theorem getClusterBalancedStatus_spec_witness:
  "fst (getClusterBalancedStatus
          (nodesClient (nodesExample 0 True ''running'', None))
          (initState :: (int, real) state)) = (False, None)
   \<and> fst (getClusterBalancedStatus
          (nodesClient (nodesExample 2 False ''running'', None))
          (initState :: (int, real) state)) = (True, None)"
  using getClusterBalancedStatus_spec [of
      "nodesClient (nodesExample 0 True ''running'', None)"
      "initState :: (int, real) state" "nodesExample 0 True ''running''" None 0]
    getClusterBalancedStatus_spec [of
      "nodesClient (nodesExample 2 False ''running'', None)"
      "initState :: (int, real) state" "nodesExample 2 False ''running''" None 0]
  by (simp add: nodesClient_def staticClient_def initState_def nodesExample_def)

subsection \<open>Node resolver\<close>

lemma firstThisNode_find: "firstThisNode ns = map_option Hostname (find ThisNode ns)"
  by (induction ns) auto

text \<open>
  C4. \<open>getCurrentNode\<close> returns an error exactly when the node list cannot be
  fetched. When the fetch succeeds it returns, with no error, the hostname of the first
  node that has the this-node flag set, and the empty string when no node has it.
\<close>

theorem getCurrentNode_spec:
  assumes "clientNodes c (world s) = ((nodes, err), w)"
  shows "(snd (fst (getCurrentNode c s)) \<noteq> None \<longleftrightarrow> err \<noteq> None)
         \<and> (err = None \<longrightarrow>
              (case find ThisNode (Nodes nodes) of
                 Some n \<Rightarrow> fst (getCurrentNode c s) = (Hostname n, None)
               | None \<Rightarrow> fst (getCurrentNode c s) = ([], None)))"
  using assms
  by (auto simp: getCurrentNode_def firstThisNode_find split: option.splits)

theorem getCurrentNode_spec_witness:
  "fst (getCurrentNode
          (nodesClient (nodeListExample [\<lparr>Hostname = ''a'', ThisNode = False\<rparr>,
                                         \<lparr>Hostname = ''b'', ThisNode = True\<rparr>], None))
          (initState :: (int, real) state)) = (''b'', None)
   \<and> fst (getCurrentNode
          (nodesClient (nodeListExample [\<lparr>Hostname = ''a'', ThisNode = False\<rparr>], None))
          (initState :: (int, real) state)) = ([], None)
   \<and> snd (fst (getCurrentNode
          (nodesClient (nodeListExample [], Some (Err ''connection refused'')))
          (initState :: (int, real) state))) \<noteq> None"
  using getCurrentNode_spec [of
      "nodesClient (nodeListExample [\<lparr>Hostname = ''a'', ThisNode = False\<rparr>,
                                     \<lparr>Hostname = ''b'', ThisNode = True\<rparr>], None)"
      "initState :: (int, real) state"
      "nodeListExample [\<lparr>Hostname = ''a'', ThisNode = False\<rparr>, \<lparr>Hostname = ''b'', ThisNode = True\<rparr>]"
      None 0]
    getCurrentNode_spec [of
      "nodesClient (nodeListExample [\<lparr>Hostname = ''a'', ThisNode = False\<rparr>], None)"
      "initState :: (int, real) state"
      "nodeListExample [\<lparr>Hostname = ''a'', ThisNode = False\<rparr>]" None 0]
    getCurrentNode_spec [of
      "nodesClient (nodeListExample [], Some (Err ''connection refused''))"
      "initState :: (int, real) state" "nodeListExample []" "Some (Err ''connection refused'')" 0]
  by (simp add: nodesClient_def staticClient_def initState_def nodeListExample_def)

subsection \<open>Statistics URL\<close>

lemma scanServers_no_match:
  "\<forall>server \<in> set servers. ServerHostname server \<noteq> node \<Longrightarrow> scanServers node uri servers = uri"
  by (induction servers arbitrary: uri) auto

lemma scanServers_snoc:
  "scanServers node uri (servers @ [server])
     = (if ServerHostname server = node then stats_index (Stats server) ''uri''
        else scanServers node uri servers)"
  by (induction servers arbitrary: uri) auto

lemma scanServers_last_match:
  "filter (\<lambda>server. ServerHostname server = node) servers \<noteq> [] \<Longrightarrow>
     scanServers node uri servers
       = stats_index (Stats (last (filter (\<lambda>server. ServerHostname server = node) servers))) ''uri''"
  by (induction servers arbitrary: uri rule: rev_induct) (auto simp: scanServers_snoc)

lemma getSpecificNodeBucketStatsURL_scan:
  "clientServers client bucket (world s) = ((servers, err), w) \<Longrightarrow>
     fst (getSpecificNodeBucketStatsURL client bucket node s) = scanServers node [] (Servers servers)"
  by (simp add: getSpecificNodeBucketStatsURL_def)

text \<open>
  C6. When the server list of the bucket is fetched and no server in it has the node
  name as its hostname, \<open>getSpecificNodeBucketStatsURL\<close> returns the empty string.
\<close>

theorem getSpecificNodeBucketStatsURL_no_match:
  assumes "clientServers client bucket (world s) = ((servers, None), w)"
    and "\<forall>server \<in> set (Servers servers). ServerHostname server \<noteq> node"
  shows "fst (getSpecificNodeBucketStatsURL client bucket node s) = []"
  using assms by (simp add: getSpecificNodeBucketStatsURL_scan scanServers_no_match)

theorem getSpecificNodeBucketStatsURL_no_match_witness:
  "fst (getSpecificNodeBucketStatsURL
          (serversClient [\<lparr>ServerHostname = ''node2'', Stats = [''uri'' \<mapsto> ''/node2/stats'']\<rparr>])
          ''default'' ''node1'' (initState :: (int, real) state)) = []"
  using getSpecificNodeBucketStatsURL_no_match [of
      "serversClient [\<lparr>ServerHostname = ''node2'', Stats = [''uri'' \<mapsto> ''/node2/stats'']\<rparr>]"
      "''default''" "initState :: (int, real) state"
      "\<lparr>Servers = [\<lparr>ServerHostname = ''node2'', Stats = [''uri'' \<mapsto> ''/node2/stats'']\<rparr>]\<rparr>"
      0 "''node1''"]
  by (simp add: serversClient_def staticClient_def initState_def)

text \<open>
  C10. When more than one server of the list has the node name as its hostname,
  \<open>getSpecificNodeBucketStatsURL\<close> returns the \<open>uri\<close> entry of the statistics of the
  last of them in list order: the scan goes on after a match.
\<close>

theorem getSpecificNodeBucketStatsURL_last_match:
  assumes "clientServers client bucket (world s) = ((servers, err), w)"
    and "1 < length (filter (\<lambda>server. ServerHostname server = node) (Servers servers))"
  shows "fst (getSpecificNodeBucketStatsURL client bucket node s)
           = stats_index
               (Stats (last (filter (\<lambda>server. ServerHostname server = node) (Servers servers))))
               ''uri''"
proof -
  from assms(2) have "filter (\<lambda>server. ServerHostname server = node) (Servers servers) \<noteq> []"
    by auto
  then show ?thesis
    using assms(1) by (simp add: getSpecificNodeBucketStatsURL_scan scanServers_last_match)
qed

theorem getSpecificNodeBucketStatsURL_last_match_witness:
  "fst (getSpecificNodeBucketStatsURL
          (serversClient [\<lparr>ServerHostname = ''node1'', Stats = [''uri'' \<mapsto> ''/first'']\<rparr>,
                          \<lparr>ServerHostname = ''node2'', Stats = [''uri'' \<mapsto> ''/other'']\<rparr>,
                          \<lparr>ServerHostname = ''node1'', Stats = [''uri'' \<mapsto> ''/second'']\<rparr>])
          ''default'' ''node1'' (initState :: (int, real) state)) = ''/second''"
  using getSpecificNodeBucketStatsURL_last_match [of
      "serversClient [\<lparr>ServerHostname = ''node1'', Stats = [''uri'' \<mapsto> ''/first'']\<rparr>,
                      \<lparr>ServerHostname = ''node2'', Stats = [''uri'' \<mapsto> ''/other'']\<rparr>,
                      \<lparr>ServerHostname = ''node1'', Stats = [''uri'' \<mapsto> ''/second'']\<rparr>]"
      "''default''" "initState :: (int, real) state"
      "\<lparr>Servers = [\<lparr>ServerHostname = ''node1'', Stats = [''uri'' \<mapsto> ''/first'']\<rparr>,
                   \<lparr>ServerHostname = ''node2'', Stats = [''uri'' \<mapsto> ''/other'']\<rparr>,
                   \<lparr>ServerHostname = ''node1'', Stats = [''uri'' \<mapsto> ''/second'']\<rparr>]\<rparr>"
      None 0 "''node1''"]
  by (simp add: serversClient_def staticClient_def initState_def stats_index_def)

subsection \<open>One pass of the collection loop\<close>

lemmas calls_defs =
  calls_AvgDiskUpdateTime_def calls_CouchTotalDiskSize_def calls_EpCacheMissRate_def
  calls_EpActiveAheadExceptions_def calls_EpDcp2iBackoff_def calls_EpDcpCbasBackoff_def
  calls_EpDcpFtsBackoff_def calls_EpDcpOtherBackoff_def calls_EpDcpReplicaBackoff_def
  calls_EpDcpViewsBackoff_def calls_EpDcpViewsIndexesBackoff_def calls_EpDcpXdcrBackoff_def
  calls_EpDiskqueueDrain_def calls_EpFlusherTodo_def calls_EpNumNonResident_def
  calls_EpOomErrors_def calls_EpReplicaAheadExceptions_def calls_VbAvgActiveQueueAge_def
  calls_VbActiveEject_def calls_VbPendingCurrItems_def calls_VbReplicaCurrItems_def
  calls_VbTotalQueueAge_def calls_BgWaitCount_def calls_CurrConnections_def calls_DecrHits_def
  calls_DiskCommitCount_def calls_Evictions_def calls_MemActualFree_def

lemma calls_CurrItems:
  "filter (\<lambda>call. fst call = ''CurrItems'') trackedFields = [(''CurrItems'', ''curr_items'')]"
  unfolding trackedFields_def filter_append by (simp add: calls_defs)

lemma calls_HibernatedRequests:
  "filter (\<lambda>call. fst call = ''HibernatedRequests'') trackedFields
     = [(''HibernatedRequests'', ''hibernated_requests''), (''HibernatedRequests'', ''hibernated_waked'')]"
  unfolding trackedFields_def filter_append by (simp add: calls_defs)

lemma calls_HibernatedWaked:
  "filter (\<lambda>call. fst call = ''HibernatedWaked'') trackedFields = []"
  unfolding trackedFields_def filter_append by (simp add: calls_defs)

lemma gauges_setGaugeVec:
  "gauges (setGaugeVec vec stats l t) g
     = (if vec = g \<and> stats \<noteq> [] then (gauges t g)(l \<mapsto> last stats) else gauges t g)"
  by (simp add: setGaugeVec_def emit_def gauge_Set_def last_conv_nth)

lemma publishSamples_snoc:
  "publishSamples pf fo samples b n c (calls @ [(vec, key)]) s
     = setGaugeVec vec (strToFloatArr pf (fmt_Sprint fo (samples_index samples key))) [b, n, c]
         (publishSamples pf fo samples b n c calls s)"
  by (simp add: publishSamples_def)

lemma publishSamples_Nil: "publishSamples pf fo samples b n c [] s = s"
  by (simp add: publishSamples_def)

lemma publishSamples_Cons:
  "publishSamples pf fo samples b n c ((vec, key) # calls) s
     = publishSamples pf fo samples b n c calls
         (setGaugeVec vec (strToFloatArr pf (fmt_Sprint fo (samples_index samples key))) [b, n, c] s)"
  by (simp add: publishSamples_def)

lemma gauges_publishSamples:
  "gauges (publishSamples pf fo samples b n c calls s) g
     = gauges (publishSamples pf fo samples b n c (filter (\<lambda>call. fst call = g) calls) s) g"
proof (induction calls rule: rev_induct)
  case Nil
  show ?case by simp
next
  case (snoc call calls)
  obtain vec key where call: "call = (vec, key)" by (cases call)
  let ?P = "\<lambda>call. fst call = g"
  let ?stats = "strToFloatArr pf (fmt_Sprint fo (samples_index samples key))"
  show ?case
  proof (cases "vec = g")
    case True
    have f: "filter ?P (calls @ [call]) = filter ?P calls @ [(vec, key)]"
      using True by (simp add: call)
    have "gauges (publishSamples pf fo samples b n c (calls @ [call]) s) g
        = (if ?stats \<noteq> [] then (gauges (publishSamples pf fo samples b n c calls s) g)
                                    ([b, n, c] \<mapsto> last ?stats)
           else gauges (publishSamples pf fo samples b n c calls s) g)"
      unfolding call publishSamples_snoc gauges_setGaugeVec using True by simp
    also have "\<dots> = (if ?stats \<noteq> []
                       then (gauges (publishSamples pf fo samples b n c (filter ?P calls) s) g)
                              ([b, n, c] \<mapsto> last ?stats)
                       else gauges (publishSamples pf fo samples b n c (filter ?P calls) s) g)"
      using snoc by simp
    also have "\<dots> = gauges (publishSamples pf fo samples b n c (filter ?P (calls @ [call])) s) g"
      unfolding f publishSamples_snoc gauges_setGaugeVec using True by simp
    finally show ?thesis .
  next
    case False
    then show ?thesis
      using snoc by (simp add: call publishSamples_snoc gauges_setGaugeVec)
  qed
qed

lemma gauges_publishSamples_start:
  "gauges s g = gauges t g \<Longrightarrow>
     gauges (publishSamples pf fo samples b n c calls s) g
       = gauges (publishSamples pf fo samples b n c calls t) g"
  by (induction calls rule: rev_induct)
    (auto simp: publishSamples_def gauges_setGaugeVec split: prod.splits)

lemma world_setGaugeVec: "world (setGaugeVec vec stats l s) = world s"
  by (simp add: setGaugeVec_def emit_def)

lemma spawned_setGaugeVec: "spawned (setGaugeVec vec stats l s) = spawned s"
  by (simp add: setGaugeVec_def emit_def)

lemma world_publishSamples: "world (publishSamples pf fo samples b n c calls s) = world s"
  by (induction calls rule: rev_induct)
    (auto simp: publishSamples_def world_setGaugeVec split: prod.splits)

lemma spawned_publishSamples: "spawned (publishSamples pf fo samples b n c calls s) = spawned s"
  by (induction calls rule: rev_induct)
    (auto simp: publishSamples_def spawned_setGaugeVec split: prod.splits)

lemma series_10_20_30:
  "pf ''30'' = Some v \<Longrightarrow>
     strToFloatArr pf ''10 20 30'' \<noteq> [] \<and> last (strToFloatArr pf ''10 20 30'') = v"
  by (auto simp: strToFloatArr_def split: option.splits)

lemma clusterWithSamples_sel:
  "clientNodes (clusterWithSamples samples uri) w
     = ((\<lparr>Nodes = [\<lparr>Hostname = ''node1'', ThisNode = True\<rparr>],
          Counters = \<lparr>RebalanceSuccess = 0\<rparr>, Balanced = True, RebalanceStatus = ''none''\<rparr>, None), w)"
  "clientServers (clusterWithSamples samples uri) bucket w
     = ((\<lparr>Servers = [\<lparr>ServerHostname = ''node1'', Stats = [''uri'' \<mapsto> uri]\<rparr>]\<rparr>, None), w)"
  "clientBuckets (clusterWithSamples samples uri) w = (([\<lparr>Name = ''default''\<rparr>], None), w)"
  "clientClusterName (clusterWithSamples samples uri) w = ((''prod'', None), w)"
  "clientGet (clusterWithSamples samples uri) uri w = ((\<lparr>Op = \<lparr>Samples = samples\<rparr>\<rparr>, None), w)"
  "timeNow (clusterWithSamples samples uri) w = w"
  "timeSleep (clusterWithSamples samples uri) d w = (if 0 < sint d then w + sint d else w)"
  by (simp_all add: clusterWithSamples_def staticClient_def)

lemma gauges_emit: "gauges (emit e s) = gauges s"
  by (simp add: emit_def)

lemma world_emit: "world (emit e s) = world s"
  by (simp add: emit_def)

lemma iteration_clusterWithSamples:
  "gauges (collectionLoopIteration (clusterWithSamples samples uri) pf fo ''node1'' ''prod'' rt s) g
     = gauges (publishSamples pf fo samples ''default'' ''node1'' ''prod''
                 (filter (\<lambda>call. fst call = g) trackedFields) s) g"
proof -
  let ?s1 = "emit (LogDebug ''Collecting per-node bucket stats, node=%s, bucket=%s''
                      [S ''node1'', S ''default'']) s"
  have stats: "getPerNodeBucketStats (clusterWithSamples samples uri) ''default'' ''node1'' ?s1
      = (samples, ?s1)"
    by (simp add: getPerNodeBucketStats_def getSpecificNodeBucketStatsURL_def
        clusterWithSamples_sel stats_index_def world_emit)
  have "gauges (collectionLoopIteration (clusterWithSamples samples uri) pf fo ''node1'' ''prod'' rt s) g
      = gauges (publishSamples pf fo samples ''default'' ''node1'' ''prod'' trackedFields ?s1) g"
    by (simp add: collectionLoopIteration_def clusterWithSamples_sel collectBucket_def stats
        time_Sleep_def Let_def)
  also have "\<dots> = gauges (publishSamples pf fo samples ''default'' ''node1'' ''prod''
                 (filter (\<lambda>call. fst call = g) trackedFields) ?s1) g"
    by (rule gauges_publishSamples)
  also have "\<dots> = gauges (publishSamples pf fo samples ''default'' ''node1'' ''prod''
                 (filter (\<lambda>call. fst call = g) trackedFields) s) g"
    by (rule gauges_publishSamples_start) (simp add: gauges_emit)
  finally show ?thesis .
qed


lemma Retry_first_success:
  "\<not> expired s \<Longrightarrow> f s = ((True, e), s1) \<Longrightarrow> 0 < n \<Longrightarrow> Retry expired delay n f l s = (None, s1)"
  by (cases n) auto

lemma sint_seconds: "0 < sint (60 * time_Second)" "0 < sint (600 * time_Second)"
  by (simp_all add: time_Second_def)

lemma ctx_open_clusterWithSamples:
  "world t = world s \<Longrightarrow> 0 < sint d \<Longrightarrow>
     \<not> ctxDone (clusterWithSamples samples uri)
          (context_WithTimeout (clusterWithSamples samples uri) d s) t"
  by (simp add: ctxDone_def context_WithTimeout_def clusterWithSamples_sel)

lemma gate_clusterWithSamples:
  "rebalanceGate (clusterWithSamples samples uri) node rt cn s
     = ((True, None),
        emit (LogInfo ''Per Node Bucket Stats Go Thread executed successfully'' [])
          (s\<lparr>spawned := spawned s @ [(node, cn, rt)]\<rparr>))"
  by (simp add: rebalanceGate_def getClusterBalancedStatus_def clusterWithSamples_sel)

lemma collect_clusterWithSamples:
  "collectPerNodeBucketMetrics (clusterWithSamples samples uri) node rt s
     = emit (LogInfo ''Per Node Bucket Stats Go Thread executed successfully'' [])
         (s\<lparr>spawned := spawned s @ [(node, ''prod'', rt)]\<rparr>)"
proof -
  have "Retry (ctxDone (clusterWithSamples samples uri)
                 (context_WithTimeout (clusterWithSamples samples uri) (600 * time_Second) s))
          (time_Sleep (clusterWithSamples samples uri) (20 * time_Second)) 10
          (rebalanceGate (clusterWithSamples samples uri) node rt ''prod'') None s
      = (None, emit (LogInfo ''Per Node Bucket Stats Go Thread executed successfully'' [])
                 (s\<lparr>spawned := spawned s @ [(node, ''prod'', rt)]\<rparr>))"
    by (rule Retry_first_success)
      (simp_all add: ctx_open_clusterWithSamples sint_seconds gate_clusterWithSamples)
  then show ?thesis
    by (simp add: collectPerNodeBucketMetrics_def clusterWithSamples_sel)
qed

lemma run_clusterWithSamples:
  "RunPerNodeBucketStatsCollection (clusterWithSamples samples uri) rt s
     = emit (LogInfo ''Per Node Bucket Stats Go Thread executed successfully'' [])
         (s\<lparr>spawned := spawned s @ [(''node1'', ''prod'', rt)]\<rparr>)"
proof -
  have r: "resolveAndCollect (clusterWithSamples samples uri) rt s
      = ((True, None), emit (LogInfo ''Per Node Bucket Stats Go Thread executed successfully'' [])
                         (s\<lparr>spawned := spawned s @ [(''node1'', ''prod'', rt)]\<rparr>))"
    by (simp add: resolveAndCollect_def getCurrentNode_def clusterWithSamples_sel
        collect_clusterWithSamples)
  have "Retry (ctxDone (clusterWithSamples samples uri)
                 (context_WithTimeout (clusterWithSamples samples uri) (60 * time_Second) s))
          (time_Sleep (clusterWithSamples samples uri) (20 * time_Second)) 8
          (resolveAndCollect (clusterWithSamples samples uri) rt) None s
      = (None, emit (LogInfo ''Per Node Bucket Stats Go Thread executed successfully'' [])
                 (s\<lparr>spawned := spawned s @ [(''node1'', ''prod'', rt)]\<rparr>))"
    by (rule Retry_first_success) (simp_all add: ctx_open_clusterWithSamples sint_seconds r)
  then show ?thesis
    by (simp add: RunPerNodeBucketStatsCollection_def)
qed

text \<open>
  C5. The end-to-end scenario: the cluster has the one bucket \<open>default\<close>, one node
  flagged as current with hostname \<open>node1\<close>, the cluster name \<open>prod\<close>, and the
  samples \<open>{"curr_items": "10 20 30"}\<close>. \<open>RunPerNodeBucketStatsCollection\<close> starts
  the collection loop with node \<open>node1\<close> and cluster name \<open>prod\<close>, and after one
  pass of that loop the gauge \<open>CurrItems\<close> at the labels (\<open>default\<close>, \<open>node1\<close>,
  \<open>prod\<close>) holds the value that \<open>30\<close> parses to.
\<close>

theorem scenario_curr_items:
  assumes "pf ''30'' = Some v"
  shows "spawned (RunPerNodeBucketStatsCollection (scenarioClient uri) rt s)
           = spawned s @ [(''node1'', ''prod'', rt)]
         \<and> gauges (collectionLoop (scenarioClient uri) pf fo ''node1'' ''prod'' rt 1 t)
             ''CurrItems'' [''default'', ''node1'', ''prod''] = Some v"
proof -
  have "gauges (collectionLoopIteration (scenarioClient uri) pf fo ''node1'' ''prod'' rt t)
          ''CurrItems'' [''default'', ''node1'', ''prod''] = Some v"
    using assms series_10_20_30 [of pf v]
    by (simp add: scenarioClient_def iteration_clusterWithSamples calls_CurrItems
        publishSamples_Cons publishSamples_Nil gauges_setGaugeVec samples_index_def)
  then show ?thesis
    by (simp add: scenarioClient_def run_clusterWithSamples emit_def)
qed

theorem scenario_curr_items_witness:
  "spawned (RunPerNodeBucketStatsCollection (scenarioClient ''/pools/default/buckets/default/nodes/node1/stats'' :: (int, unit) Client) 5
              (initState :: (int, real) state))
     = [(''node1'', ''prod'', 5)]
   \<and> gauges (collectionLoop (scenarioClient ''/pools/default/buckets/default/nodes/node1/stats'')
               (map_of [(''10'', 10 :: real), (''20'', 20), (''30'', 30)]) (\<lambda>x :: unit. []) ''node1'' ''prod'' 5 1
               initState)
       ''CurrItems'' [''default'', ''node1'', ''prod''] = Some 30"
  using scenario_curr_items [of "map_of [(''10'', 10 :: real), (''20'', 20), (''30'', 30)]" 30
      "''/pools/default/buckets/default/nodes/node1/stats''" 5 initState "\<lambda>x :: unit. []" initState]
  by (simp add: initState_def)

lemma missing_field_no_write:
  "samples key = None \<Longrightarrow> pf ''<nil>'' = None \<Longrightarrow>
     setGaugeVec vec (strToFloatArr pf (fmt_Sprint fo (samples_index samples key))) l s = s"
  by (simp add: samples_index_def strToFloatArr_def setGaugeVec_def)

text \<open>
  C9. A tracked field that is absent from the samples map is formatted to \<open><nil>\<close>,
  which gives the empty series, and the \<open>setGaugeVec\<close> call of that field writes
  nothing (\<open>missing_field_no_write\<close>). The gauge of the field is still written in the
  same pass when another call names the same gauge: the call for \<open>hibernated_waked\<close>
  passes \<open>HibernatedRequests\<close>. With samples \<open>{"hibernated_waked": "7"}\<close> the field
  \<open>hibernated_requests\<close> is absent, yet one pass sets the gauge \<open>HibernatedRequests\<close>
  at the labels (\<open>default\<close>, \<open>node1\<close>, \<open>prod\<close>) to 7, and the gauge
  \<open>HibernatedWaked\<close> has no cell.
\<close>

theorem hibernated_requests_written:
  "samples_index [''hibernated_waked'' \<mapsto> IString ''7''] ''hibernated_requests'' = (INil :: unit iface)
   \<and> gauges (collectionLoopIteration (clusterWithSamples [''hibernated_waked'' \<mapsto> IString ''7''] ''/stats'')
               (map_of [(''7'', 7 :: real)]) (\<lambda>x :: unit. []) ''node1'' ''prod'' 5 initState)
       ''HibernatedRequests'' [''default'', ''node1'', ''prod''] = Some 7
   \<and> gauges (collectionLoopIteration (clusterWithSamples [''hibernated_waked'' \<mapsto> IString ''7''] ''/stats'')
               (map_of [(''7'', 7 :: real)]) (\<lambda>x :: unit. []) ''node1'' ''prod'' 5 initState)
       ''HibernatedWaked'' = Map.empty"
  by (simp add: iteration_clusterWithSamples calls_HibernatedRequests calls_HibernatedWaked
      publishSamples_Cons publishSamples_Nil gauges_setGaugeVec samples_index_def
      strToFloatArr_def initState_def)

subsection \<open>Labels of the gauge writes of a run\<close>

lemma gaugeWrites_append: "gaugeWrites (xs @ ys) = gaugeWrites xs @ gaugeWrites ys"
  by (induction xs rule: gaugeWrites.induct) simp_all

lemma writesOnlyI:
  "trace s' = trace s @ es \<Longrightarrow> list_all Q (gaugeWrites es) \<Longrightarrow> writesOnly Q s s'"
  by (simp add: writesOnly_def)

lemma writesOnlyE:
  assumes "writesOnly Q s s'"
  obtains es where "trace s' = trace s @ es" and "list_all Q (gaugeWrites es)"
proof -
  have "trace s' = take (length (trace s)) (trace s') @ drop (length (trace s)) (trace s')"
    by simp
  with assms show ?thesis
    using that [of "drop (length (trace s)) (trace s')"] by (simp add: writesOnly_def)
qed

lemma writesOnly_same: "trace s' = trace s \<Longrightarrow> writesOnly Q s s'"
  by (simp add: writesOnly_def)

lemma writesOnly_trans:
  assumes "writesOnly Q s t" and "writesOnly Q t u"
  shows "writesOnly Q s u"
proof -
  from assms(1) obtain es where es: "trace t = trace s @ es" "list_all Q (gaugeWrites es)"
    by (rule writesOnlyE)
  from assms(2) obtain fs where fs: "trace u = trace t @ fs" "list_all Q (gaugeWrites fs)"
    by (rule writesOnlyE)
  show ?thesis
    by (rule writesOnlyI [of _ _ "es @ fs"]) (simp_all add: es fs gaugeWrites_append)
qed

lemma writesOnly_mono:
  assumes "writesOnly P s t" and "\<And>x. P x \<Longrightarrow> Q x"
  shows "writesOnly Q s t"
  using assms by (auto simp: writesOnly_def list_all_iff)

lemma writesOnly_emit:
  "gaugeWrites [e] = [] \<Longrightarrow> writesOnly Q s (emit e s)"
  by (rule writesOnlyI [of _ _ "[e]"]) (simp_all add: emit_def)

lemma trace_setGaugeVec:
  "trace (setGaugeVec vec stats l s)
     = trace s @ (if stats = [] then [] else [GaugeSet vec l (last stats)])"
  by (simp add: setGaugeVec_def emit_def last_conv_nth)

lemma writesOnly_setGaugeVec:
  "Q (vec, l) \<Longrightarrow> writesOnly Q s (setGaugeVec vec stats l s)"
  by (rule writesOnlyI [OF trace_setGaugeVec]) simp

lemma writesOnly_publishSamples:
  assumes "\<And>vec. Q (vec, [b, n, c])"
  shows "writesOnly Q s (publishSamples pf fo samples b n c calls s)"
proof (induction calls rule: rev_induct)
  case Nil
  show ?case by (simp add: publishSamples_def writesOnly_same)
next
  case (snoc call calls)
  obtain vec key where call: "call = (vec, key)" by (cases call)
  have "writesOnly Q (publishSamples pf fo samples b n c calls s)
          (publishSamples pf fo samples b n c (calls @ [call]) s)"
    by (simp add: call publishSamples_def writesOnly_setGaugeVec assms)
  with snoc show ?case by (rule writesOnly_trans)
qed

lemma trace_getSpecificNodeBucketStatsURL:
  "trace (snd (getSpecificNodeBucketStatsURL client bucket node s))
     = trace s @ (case snd (fst (clientServers client bucket (world s))) of
                    Some e \<Rightarrow> [LogError ''unable to retrieve Servers %s'' [E e]]
                  | None \<Rightarrow> [])"
  by (simp add: getSpecificNodeBucketStatsURL_def Let_def emit_def split: prod.splits option.splits)

lemma writesOnly_getSpecificNodeBucketStatsURL:
  "writesOnly Q s (snd (getSpecificNodeBucketStatsURL client bucket node s))"
  by (rule writesOnlyI [OF trace_getSpecificNodeBucketStatsURL]) (simp split: option.splits)

lemma trace_getPerNodeBucketStats:
  "writesOnly Q s (snd (getPerNodeBucketStats client bucket node s))"
proof -
  obtain url s1 where u: "getSpecificNodeBucketStatsURL client bucket node s = (url, s1)"
    by (cases "getSpecificNodeBucketStatsURL client bucket node s")
  obtain bucketStats err w where g: "clientGet client url (world s1) = ((bucketStats, err), w)"
    by (metis surj_pair)
  have a: "writesOnly Q s s1"
    using writesOnly_getSpecificNodeBucketStatsURL [of Q s client bucket node] by (simp add: u)
  have "trace (snd (getPerNodeBucketStats client bucket node s))
      = trace s1 @ (case err of
                      Some e \<Rightarrow> [LogError ''unable to GET PerNodeBucketStats %s'' [E e]]
                    | None \<Rightarrow> [])"
    by (simp add: getPerNodeBucketStats_def u g Let_def emit_def split: option.splits)
  then have b: "writesOnly Q s1 (snd (getPerNodeBucketStats client bucket node s))"
    by (rule writesOnlyI) (simp split: option.splits)
  from a b show ?thesis by (rule writesOnly_trans)
qed

lemma labelledBy_triple: "labelledBy node clusterName (vec, [b, node, clusterName])"
  by (simp add: labelledBy_def)

lemma writesOnly_collectBucket:
  "writesOnly (labelledBy node clusterName) s
     (collectBucket client pf fo node clusterName bucket s)"
proof -
  let ?s0 = "emit (LogDebug ''Collecting per-node bucket stats, node=%s, bucket=%s''
                     [S node, S (Name bucket)]) s"
  obtain samples s1 where g: "getPerNodeBucketStats client (Name bucket) node ?s0 = (samples, s1)"
    by (cases "getPerNodeBucketStats client (Name bucket) node ?s0")
  have a: "writesOnly (labelledBy node clusterName) s ?s0"
    by (rule writesOnly_emit) simp
  have b: "writesOnly (labelledBy node clusterName) ?s0 s1"
    using trace_getPerNodeBucketStats [of "labelledBy node clusterName" ?s0 client "Name bucket" node]
    by (simp add: g)
  have c: "writesOnly (labelledBy node clusterName) s1
             (publishSamples pf fo samples (Name bucket) node clusterName trackedFields s1)"
    by (rule writesOnly_publishSamples) (rule labelledBy_triple)
  have "collectBucket client pf fo node clusterName bucket s
      = publishSamples pf fo samples (Name bucket) node clusterName trackedFields s1"
    by (simp add: collectBucket_def g)
  with writesOnly_trans [OF writesOnly_trans [OF a b] c] show ?thesis by simp
qed

lemma writesOnly_buckets:
  "writesOnly (labelledBy node clusterName) s
     (foldl (\<lambda>t bucket. collectBucket client pf fo node clusterName bucket t) s buckets)"
proof (induction buckets rule: rev_induct)
  case Nil
  show ?case by (simp add: writesOnly_same)
next
  case (snoc bucket buckets)
  have "writesOnly (labelledBy node clusterName)
          (foldl (\<lambda>t bucket. collectBucket client pf fo node clusterName bucket t) s buckets)
          (foldl (\<lambda>t bucket. collectBucket client pf fo node clusterName bucket t) s
             (buckets @ [bucket]))"
    by (simp add: writesOnly_collectBucket)
  with snoc show ?case by (rule writesOnly_trans)
qed

lemma writesOnly_iteration:
  "writesOnly (labelledBy node clusterName) s
     (collectionLoopIteration client pf fo node clusterName refreshTime s)"
proof -
  obtain buckets err w where b: "clientBuckets client (world s) = ((buckets, err), w)"
    by (metis surj_pair)
  let ?s1 = "case err of
               Some e \<Rightarrow> emit (LogError ''Unable to get buckets %s'' [E e]) (s\<lparr>world := w\<rparr>)
             | None \<Rightarrow> s\<lparr>world := w\<rparr>"
  let ?s2 = "foldl (\<lambda>t bucket. collectBucket client pf fo node clusterName bucket t) ?s1 buckets"
  have "trace ?s1 = trace s @ (case err of
                                 Some e \<Rightarrow> [LogError ''Unable to get buckets %s'' [E e]]
                               | None \<Rightarrow> [])"
    by (simp add: emit_def split: option.splits)
  then have a: "writesOnly (labelledBy node clusterName) s ?s1"
    by (rule writesOnlyI) (simp split: option.splits)
  have c: "writesOnly (labelledBy node clusterName) ?s1 ?s2"
    by (rule writesOnly_buckets)
  have d: "writesOnly (labelledBy node clusterName) ?s2
             (time_Sleep client (time_Second * refreshTime) ?s2)"
    by (simp add: time_Sleep_def writesOnly_same)
  have "collectionLoopIteration client pf fo node clusterName refreshTime s
      = time_Sleep client (time_Second * refreshTime) ?s2"
    by (simp add: collectionLoopIteration_def b Let_def)
  with writesOnly_trans [OF writesOnly_trans [OF a c] d] show ?thesis by simp
qed

lemma writesOnly_collectionLoop:
  "writesOnly (labelledBy node clusterName) s
     (collectionLoop client pf fo node clusterName refreshTime k s)"
proof (induction k arbitrary: s)
  case 0
  show ?case by (simp add: writesOnly_same)
next
  case (Suc k)
  show ?case
    using writesOnly_iteration [of node clusterName s client pf fo refreshTime]
      Suc [of "collectionLoopIteration client pf fo node clusterName refreshTime s"]
    by (simp only: collectionLoop.simps) (rule writesOnly_trans)
qed


lemma Retry_rule:
  assumes "I s" and "\<And>t. I t \<Longrightarrow> I (delay t)"
    and "\<And>t ok e t'. I t \<Longrightarrow> f t = ((ok, e), t') \<Longrightarrow> (if ok then J t' else I t')"
  shows "case Retry expired delay n f l s of
           (r, t) \<Rightarrow> (case r of None \<Rightarrow> J t | Some e \<Rightarrow> I t)"
  using assms(1)
proof (induction n arbitrary: s l)
  case 0
  then show ?case by simp
next
  case (Suc n)
  show ?case
  proof (cases "expired s")
    case True
    with Suc.prems show ?thesis by simp
  next
    case False
    obtain ok e s1 where f: "f s = ((ok, e), s1)"
      by (metis surj_pair)
    show ?thesis
    proof (cases ok)
      case True
      with assms(3) [OF Suc.prems f] False f show ?thesis by simp
    next
      case notok: False
      with assms(3) [OF Suc.prems f] have "I s1" by simp
      then have "I (if n = 0 then s1 else delay s1)"
        using assms(2) by simp
      from Suc.IH [OF this, of e] False f notok show ?thesis by simp
    qed
  qed
qed

lemma getClusterBalancedStatus_effect:
  "trace (snd (getClusterBalancedStatus c s)) = trace s
   \<and> gauges (snd (getClusterBalancedStatus c s)) = gauges s
   \<and> spawned (snd (getClusterBalancedStatus c s)) = spawned s"
  by (simp add: getClusterBalancedStatus_def split: prod.splits option.splits)

lemma rebalanceGate_effect:
  assumes "rebalanceGate client node rt cn t = ((ok, e), t')"
  shows "writesOnly (\<lambda>write. False) t t' \<and> gauges t' = gauges t
         \<and> spawned t' = (if ok then spawned t @ [(node, cn, rt)] else spawned t)"
proof -
  obtain rebalanced err t1 where g: "getClusterBalancedStatus client t = ((rebalanced, err), t1)"
    by (metis surj_pair)
  have t1: "trace t1 = trace t" "gauges t1 = gauges t" "spawned t1 = spawned t"
    using getClusterBalancedStatus_effect [of client t] by (simp_all add: g)
  have tr: "trace t' = trace t @
              (case err of Some x \<Rightarrow> [LogError ''Unable to get rebalance status %s'' [E x]]
               | None \<Rightarrow> [])
              @ [if rebalanced
                 then LogInfo ''Per Node Bucket Stats Go Thread executed successfully'' []
                 else LogInfo ''Waiting for Rebalance... retrying...'' []]"
    using assms by (auto simp: rebalanceGate_def g Let_def emit_def t1 split: option.splits if_splits)
  have w: "writesOnly (\<lambda>write. False) t t'"
    by (rule writesOnlyI [OF tr]) (simp add: gaugeWrites_append split: option.splits)
  have rest: "gauges t' = gauges t
      \<and> spawned t' = (if ok then spawned t @ [(node, cn, rt)] else spawned t)"
    using assms by (auto simp: rebalanceGate_def g Let_def emit_def t1 split: option.splits if_splits)
  from w rest show ?thesis by simp
qed

lemma collectPerNodeBucketMetrics_effect:
  assumes "clientClusterName client (world s) = ((clusterName, err), w)"
  shows "writesOnly (\<lambda>write. False) s (collectPerNodeBucketMetrics client node rt s)
         \<and> gauges (collectPerNodeBucketMetrics client node rt s) = gauges s
         \<and> (spawned (collectPerNodeBucketMetrics client node rt s) = spawned s
              \<or> err = None
                 \<and> spawned (collectPerNodeBucketMetrics client node rt s)
                     = spawned s @ [(node, clusterName, rt)])"
proof (cases err)
  case (Some e)
  have "trace (collectPerNodeBucketMetrics client node rt s) = trace s @ [LogError ''%s'' [E e]]"
    by (simp add: collectPerNodeBucketMetrics_def assms Some emit_def Let_def)
  then have "writesOnly (\<lambda>write. False) s (collectPerNodeBucketMetrics client node rt s)"
    by (rule writesOnlyI) simp
  then show ?thesis
    by (simp add: collectPerNodeBucketMetrics_def assms Some emit_def Let_def)
next
  case None
  let ?I = "\<lambda>t. writesOnly (\<lambda>write. False) s t \<and> gauges t = gauges s \<and> spawned t = spawned s"
  let ?J = "\<lambda>t. writesOnly (\<lambda>write. False) s t \<and> gauges t = gauges s
                \<and> spawned t = spawned s @ [(node, clusterName, rt)]"
  let ?ctx = "context_WithTimeout client (600 * time_Second) s"
  obtain outerErr s1 where r:
    "Retry (ctxDone client ?ctx) (time_Sleep client (20 * time_Second)) 10
       (rebalanceGate client node rt clusterName) None (s\<lparr>world := w\<rparr>) = (outerErr, s1)"
    by (metis surj_pair)
  have "case Retry (ctxDone client ?ctx) (time_Sleep client (20 * time_Second)) 10
               (rebalanceGate client node rt clusterName) None (s\<lparr>world := w\<rparr>) of
          (r, t) \<Rightarrow> (case r of None \<Rightarrow> ?J t | Some e \<Rightarrow> ?I t)"
  proof (rule Retry_rule [where I = ?I and J = ?J])
    show "?I (s\<lparr>world := w\<rparr>)" by (simp add: writesOnly_same)
  next
    fix t assume "?I t"
    then show "?I (time_Sleep client (20 * time_Second) t)"
      using writesOnly_trans [of "\<lambda>write. False" s t "time_Sleep client (20 * time_Second) t"]
      by (simp add: time_Sleep_def writesOnly_same)
  next
    fix t ok e t'
    assume i: "?I t" and g: "rebalanceGate client node rt clusterName t = ((ok, e), t')"
    from rebalanceGate_effect [OF g] i
    show "if ok then ?J t' else ?I t'"
      using writesOnly_trans [of "\<lambda>write. False" s t t'] by simp
  qed
  then have end_state: "case outerErr of None \<Rightarrow> ?J s1 | Some e \<Rightarrow> ?I s1"
    by (simp add: r)
  show ?thesis
  proof (cases outerErr)
    case n: None
    with end_state have "?J s1" by simp
    moreover have "collectPerNodeBucketMetrics client node rt s = s1"
      by (simp add: collectPerNodeBucketMetrics_def assms None r n Let_def)
    ultimately show ?thesis using None by simp
  next
    case (Some e)
    with end_state have i: "?I s1" by simp
    have c: "collectPerNodeBucketMetrics client node rt s
        = emit (LogError ''Getting Per Node Bucket Stats failed %s'' [E e]) s1"
      by (simp add: collectPerNodeBucketMetrics_def assms None r Some Let_def)
    have "writesOnly (\<lambda>write. False) s1 (emit (LogError ''Getting Per Node Bucket Stats failed %s'' [E e]) s1)"
      by (rule writesOnly_emit) simp
    with i have "writesOnly (\<lambda>write. False) s (collectPerNodeBucketMetrics client node rt s)"
      unfolding c using writesOnly_trans by blast
    with i show ?thesis by (simp add: c emit_def)
  qed
qed

lemma gauges_unwritten:
  assumes "writesOnly (\<lambda>write. False) s t"
  shows "gaugeWrites (trace t) = gaugeWrites (trace s)"
proof -
  from assms obtain es where "trace t = trace s @ es" "list_all (\<lambda>write. False) (gaugeWrites es)"
    by (rule writesOnlyE)
  then show ?thesis by (cases "gaugeWrites es") (simp_all add: gaugeWrites_append)
qed

text \<open>
  C7. In every run of \<open>collectPerNodeBucketMetrics\<close> the cluster name is resolved
  before any gauge is written: the function itself writes no gauge, and the only
  goroutine it can start is the collection loop with the node it was given and the
  cluster name it resolved. When resolving the cluster name fails, no goroutine is
  started and no gauge is written in that run. Every gauge write of the run, for any
  number \<open>k\<close> of passes of the loop, has a label tuple (bucket, node, cluster name)
  with that node and that cluster name.
\<close>

theorem collectPerNodeBucketMetrics_labels:
  assumes "clientClusterName client (world s) = ((clusterName, err), w)"
  shows "gaugeWrites (trace (collectPerNodeBucketMetrics client node refreshTime s))
           = gaugeWrites (trace s)
         \<and> gauges (collectPerNodeBucketMetrics client node refreshTime s) = gauges s
         \<and> list_all (\<lambda>goroutine. goroutine = (node, clusterName, refreshTime))
              (drop (length (spawned s))
                 (spawned (collectPerNodeBucketMetrics client node refreshTime s)))
         \<and> (err \<noteq> None \<longrightarrow>
               spawned (collectPerNodeBucketMetrics client node refreshTime s) = spawned s
               \<and> gaugeWrites (trace (collectRun client pf fo node refreshTime k s))
                   = gaugeWrites (trace s)
               \<and> gauges (collectRun client pf fo node refreshTime k s) = gauges s)
         \<and> writesOnly (labelledBy node clusterName) s
              (collectRun client pf fo node refreshTime k s)"
proof -
  let ?s1 = "collectPerNodeBucketMetrics client node refreshTime s"
  note eff = collectPerNodeBucketMetrics_effect [OF assms, of node refreshTime]
  from eff have quiet: "writesOnly (\<lambda>write. False) s ?s1" and g: "gauges ?s1 = gauges s"
    by simp_all
  from eff consider (none) "spawned ?s1 = spawned s"
    | (one) "err = None" "spawned ?s1 = spawned s @ [(node, clusterName, refreshTime)]"
    by blast
  then show ?thesis
  proof cases
    case none
    then have run: "collectRun client pf fo node refreshTime k s = ?s1"
      by (simp add: collectRun_def Let_def)
    show ?thesis
      using quiet g none gauges_unwritten [OF quiet]
        writesOnly_mono [OF quiet, of "labelledBy node clusterName"]
      by (simp add: run)
  next
    case one
    then have run: "collectRun client pf fo node refreshTime k s
        = collectionLoop client pf fo node clusterName refreshTime k ?s1"
      by (simp add: collectRun_def Let_def)
    have "writesOnly (labelledBy node clusterName) s ?s1"
      using writesOnly_mono [OF quiet, of "labelledBy node clusterName"] by simp
    then have "writesOnly (labelledBy node clusterName) s
        (collectionLoop client pf fo node clusterName refreshTime k ?s1)"
      using writesOnly_collectionLoop writesOnly_trans by blast
    then show ?thesis
      using g one gauges_unwritten [OF quiet] by (simp add: run)
  qed
qed


theorem collectPerNodeBucketMetrics_labels_witness:
  "writesOnly (labelledBy ''node1'' ''prod'') (initState :: (int, real) state)
     (collectRun (scenarioClient ''/stats'') (map_of [(''10'', 10), (''20'', 20), (''30'', 30)])
        (\<lambda>x :: unit. []) ''node1'' 5 1 initState)
   \<and> gauges (collectRun (scenarioClient ''/stats'') (map_of [(''10'', 10 :: real), (''20'', 20), (''30'', 30)])
               (\<lambda>x :: unit. []) ''node1'' 5 1 initState)
       ''CurrItems'' [''default'', ''node1'', ''prod''] = Some 30
   \<and> spawned (collectPerNodeBucketMetrics
                (staticClient (nodesExample 0 True ''none'', None) (\<lambda>bucket. (\<lparr>Servers = []\<rparr>, None))
                   ([], None) ([], Some (Err ''no pool'')) (\<lambda>url. (noStats :: unit objects_PerNodeBucketStats, None)))
                ''node1'' 5 (initState :: (int, real) state)) = []"
proof -
  let ?pf = "map_of [(''10'', 10 :: real), (''20'', 20), (''30'', 30)]"
  let ?fo = "\<lambda>x :: unit. []"
  let ?down = "staticClient (nodesExample 0 True ''none'', None) (\<lambda>bucket. (\<lparr>Servers = []\<rparr>, None))
                 ([], None) ([], Some (Err ''no pool''))
                 (\<lambda>url. (noStats :: unit objects_PerNodeBucketStats, None))"
  have name: "clientClusterName (scenarioClient ''/stats'' :: (int, unit) Client)
                (world (initState :: (int, real) state)) = ((''prod'', None), 0)"
    by (simp add: scenarioClient_def clusterWithSamples_sel initState_def)
  have noname: "clientClusterName ?down (world (initState :: (int, real) state))
      = (([], Some (Err ''no pool'')), 0)"
    by (simp add: staticClient_def initState_def)
  have run: "collectRun (scenarioClient ''/stats'') ?pf ?fo ''node1'' 5 1 (initState :: (int, real) state)
      = collectionLoopIteration (scenarioClient ''/stats'') ?pf ?fo ''node1'' ''prod'' 5
          (collectPerNodeBucketMetrics (scenarioClient ''/stats'' :: (int, unit) Client) ''node1'' 5 initState)"
    by (simp add: collectRun_def scenarioClient_def collect_clusterWithSamples emit_def
        initState_def Let_def)
  have written: "gauges (collectRun (scenarioClient ''/stats'') ?pf ?fo ''node1'' 5 1
                           (initState :: (int, real) state))
                   ''CurrItems'' [''default'', ''node1'', ''prod''] = Some 30"
    unfolding run
    by (simp add: scenarioClient_def iteration_clusterWithSamples calls_CurrItems
        publishSamples_Cons publishSamples_Nil gauges_setGaugeVec samples_index_def
        strToFloatArr_def)
  show ?thesis
    using collectPerNodeBucketMetrics_labels [OF name, of "''node1''" 5 ?pf ?fo 1]
      collectPerNodeBucketMetrics_labels [OF noname, of "''node1''" 5 ?pf ?fo 1]
      written
    by (simp add: initState_def)
qed

subsection \<open>Retry budget\<close>

lemma Retry_counting:
  assumes "\<forall>s. \<not> fst (fst (f s))"
  shows "case Retry (\<lambda>p. expired (fst p)) (apfst delay) n (counting f) l (s, c) of
           (r, (s', calls)) \<Rightarrow>
             (\<exists>m \<le> n. calls = c + m
                \<and> (\<forall>i < m. \<not> expired (beforeAttempt f delay i s))
                \<and> (m < n \<longrightarrow> expired (beforeAttempt f delay m s) \<and> r = Some DeadlineExceeded)
                \<and> (m = n \<longrightarrow> (\<exists>e. r = Some (RetryExhausted e))))"
proof (induction n arbitrary: s c l)
  case 0
  show ?case by simp
next
  case (Suc n)
  show ?case
  proof (cases "expired s")
    case True
    then show ?thesis by (auto intro: exI [of _ 0])
  next
    case False
    obtain ok err s1 where f: "f s = ((ok, err), s1)"
      by (metis surj_pair)
    with assms have ok: "\<not> ok" by (metis fst_conv)
    let ?s2 = "if n = 0 then s1 else delay s1"
    have step: "Retry (\<lambda>p. expired (fst p)) (apfst delay) (Suc n) (counting f) l (s, c)
        = Retry (\<lambda>p. expired (fst p)) (apfst delay) n (counting f) err (?s2, Suc c)"
      using False f ok by (simp add: counting_def)
    obtain r s' calls where res:
      "Retry (\<lambda>p. expired (fst p)) (apfst delay) n (counting f) err (?s2, Suc c) = (r, (s', calls))"
      by (metis surj_pair)
    from Suc [where l = err and s = ?s2 and c = "Suc c"] res
    obtain m where m: "m \<le> n" "calls = Suc c + m"
      "\<forall>i < m. \<not> expired (beforeAttempt f delay i ?s2)"
      "m < n \<longrightarrow> expired (beforeAttempt f delay m ?s2) \<and> r = Some DeadlineExceeded"
      "m = n \<longrightarrow> (\<exists>e. r = Some (RetryExhausted e))"
      by auto
    have shift: "beforeAttempt f delay (Suc i) s = beforeAttempt f delay i ?s2" if "i < n" for i
      using that f by simp
    have a: "\<forall>i < Suc m. \<not> expired (beforeAttempt f delay i s)"
    proof (intro allI impI)
      fix i assume i: "i < Suc m"
      show "\<not> expired (beforeAttempt f delay i s)"
      proof (cases i)
        case 0
        with False show ?thesis by simp
      next
        case (Suc j)
        with i m(1) have "j < m" "j < n" by simp_all
        with m(3) shift [of j] Suc show ?thesis by simp
      qed
    qed
    have b: "Suc m < Suc n \<longrightarrow> expired (beforeAttempt f delay (Suc m) s) \<and> r = Some DeadlineExceeded"
      using m(4) shift [of m] by simp
    have "Suc m \<le> Suc n \<and> calls = c + Suc m
        \<and> (\<forall>i < Suc m. \<not> expired (beforeAttempt f delay i s))
        \<and> (Suc m < Suc n \<longrightarrow> expired (beforeAttempt f delay (Suc m) s) \<and> r = Some DeadlineExceeded)
        \<and> (Suc m = Suc n \<longrightarrow> (\<exists>e. r = Some (RetryExhausted e)))"
      using m(1,2,5) a b by simp
    then show ?thesis
      unfolding step res by (simp only: prod.case) blast
  qed
qed

text \<open>
  C8. The retry helper, from the spec's description of it. For every attempt bound
  \<open>N\<close> and every function that fails on every invocation, the helper surfaces a
  failure and invokes the function at most \<open>N\<close> times. The number of invocations is
  fixed by the deadline: every invocation starts before the deadline has expired; the
  helper stops short of \<open>N\<close> invocations only at an attempt that would start after
  the deadline has expired, and then the failure is the expired deadline; when the
  deadline has expired at the start of any of the \<open>N\<close> attempts the function is
  invoked fewer than \<open>N\<close> times, and when it has expired at none of them exactly
  \<open>N\<close> times, the failure being the exhausted budget.
\<close>

theorem Retry_budget:
  assumes "\<forall>s. \<not> fst (fst (f s))"
  shows "case Retry (\<lambda>p. expired (fst p)) (apfst delay) N (counting f) None (s, 0) of
           (r, (s', calls)) \<Rightarrow>
             calls \<le> N \<and> r \<noteq> None
             \<and> (\<forall>i < calls. \<not> expired (beforeAttempt f delay i s))
             \<and> (calls < N \<longrightarrow>
                   expired (beforeAttempt f delay calls s) \<and> r = Some DeadlineExceeded)
             \<and> (calls = N \<longrightarrow> r \<noteq> Some DeadlineExceeded)
             \<and> ((\<exists>i < N. expired (beforeAttempt f delay i s)) \<longrightarrow>
                   calls < N \<and> r = Some DeadlineExceeded)
             \<and> ((\<forall>i < N. \<not> expired (beforeAttempt f delay i s)) \<longrightarrow> calls = N)"
proof -
  obtain r s' calls where res:
    "Retry (\<lambda>p. expired (fst p)) (apfst delay) N (counting f) None (s, 0) = (r, (s', calls))"
    by (metis surj_pair)
  from Retry_counting [OF assms, where expired = expired and delay = delay and n = N
      and l = None and s = s and c = 0] res
  have m: "calls \<le> N" "\<forall>i < calls. \<not> expired (beforeAttempt f delay i s)"
    "calls < N \<longrightarrow> expired (beforeAttempt f delay calls s) \<and> r = Some DeadlineExceeded"
    "calls = N \<longrightarrow> (\<exists>e. r = Some (RetryExhausted e))"
    by auto
  have none: "r \<noteq> None" using m(1,3,4) by (cases "calls = N") auto
  have ex: "calls = N \<longrightarrow> r \<noteq> Some DeadlineExceeded" using m(4) by auto
  have early: "(\<exists>i < N. expired (beforeAttempt f delay i s)) \<longrightarrow> calls < N \<and> r = Some DeadlineExceeded"
    using m(1,2,3) by (metis le_neq_implies_less)
  have full: "(\<forall>i < N. \<not> expired (beforeAttempt f delay i s)) \<longrightarrow> calls = N"
    using m(1,3) by (metis le_neq_implies_less)
  show ?thesis
    unfolding res using m(1,2,3) none ex early full by simp
qed

theorem Retry_budget_witness:
  "Retry (\<lambda>p. 50 \<le> fst p) (apfst (\<lambda>t. t + 20)) 10
      (counting (\<lambda>t :: nat. ((False, Some (Err ''down'')), t + 1))) None (0, 0)
     = (Some DeadlineExceeded, (63, 3))
   \<and> Retry (\<lambda>p. 50 \<le> fst p) (apfst (\<lambda>t. t + 20)) 2
      (counting (\<lambda>t :: nat. ((False, Some (Err ''down'')), t + 1))) None (0, 0)
     = (Some (RetryExhausted (Some (Err ''down''))), (22, 2))
   \<and> beforeAttempt (\<lambda>t :: nat. ((False, Some (Err ''down'')), t + 1)) (\<lambda>t. t + 20) 3 0 = 63"
  using Retry_budget [where f = "\<lambda>t :: nat. ((False, Some (Err ''down'')), t + 1)"
      and expired = "\<lambda>t. 50 \<le> t" and delay = "\<lambda>t. t + 20" and N = 10 and s = 0]
    Retry_budget [where f = "\<lambda>t :: nat. ((False, Some (Err ''down'')), t + 1)"
      and expired = "\<lambda>t. 50 \<le> t" and delay = "\<lambda>t. t + 20" and N = 2 and s = 0]
  by (simp add: eval_nat_numeral counting_def)

end
